theory Spec2Isabelle
  imports Main "HOL-Library.AList"
begin

section \<open>JavaScript values\<close>

text \<open>
  The reducer of \<^verbatim>\<open>src/reducers/index.js\<close> is untyped JavaScript: the same slot of the
  store is read as an array by one handler and as a record by another, and a missing
  field reads as \<^verbatim>\<open>undefined\<close>. The embedding therefore works on a universe of plain
  JavaScript data:
  \<^item> the primitives; numbers are the integers the store holds (amounts, heights,
    timestamps) and \<^verbatim>\<open>NaN\<close>, which arithmetic on \<^verbatim>\<open>undefined\<close> produces;
  \<^item> objects, as association lists in insertion order (\<^verbatim>\<open>Object.assign\<close> and spread
    replace an existing key in place and append a new one);
  \<^item> dense arrays, with the list of their elements and the association list of their
    other own properties (writing at index \<^verbatim>\<open>-1\<close> creates the property \<^verbatim>\<open>"-1"\<close>);
  \<^item> functions, which the reducer only stores and calls: a function is its identity.

  A handler returns \<open>Inr\<close> of its result, or \<open>Inl TypeError\<close> where JavaScript raises a
  \<^verbatim>\<open>TypeError\<close> (a property of \<^verbatim>\<open>undefined\<close> or \<^verbatim>\<open>null\<close>, a call of something that is
  not a function, a spread of something that is not iterable) and
  \<open>Inl ReferenceError\<close> where it evaluates a name that is not bound. \<open>Inl Unmodelled\<close> marks
  the JavaScript behaviour this universe does not determine: reference equality of two
  objects, the properties of functions, index keys and characters of arrays and
  strings read as properties, number-to-string conversion in exponent notation and the
  path syntax of lodash's \<^verbatim>\<open>get\<close>.

  An object is a plain object: besides its own properties it has the members it
  inherits from \<^verbatim>\<open>Object.prototype\<close> (\<^verbatim>\<open>constructor\<close>, \<^verbatim>\<open>toString\<close>, \<^verbatim>\<open>__proto__\<close>, ...), which
  a read with a key that is not an own property finds. Such a member is a value of its
  own kind, \<open>JInherited\<close> with its name: a built-in function (for \<^verbatim>\<open>__proto__\<close> the
  prototype object), of which the embedding knows that it is truthy, not iterable,
  without enumerable properties and without the data fields the store reads. The
  members an array, a string, a number or a boolean inherits differ between versions
  of the language, so on those a key other than a data field of the store is not
  modelled. The two array methods the reducer calls (\<^verbatim>\<open>findIndex\<close>, \<^verbatim>\<open>entries\<close>) are
  operations of the embedding.
\<close>

datatype jsval =
    JUndefined
  | JNull
  | JBool bool
  | JNum int
  | JNaN
  | JStr string
  | JObj "(string \<times> jsval) list"
  | JArr "jsval list" "(string \<times> jsval) list"
  | JFun nat
  | JInherited string

type_synonym obj = "(string \<times> jsval) list"

datatype error = TypeError | ReferenceError | Unmodelled

type_synonym 'a result = "error + 'a"

definition andThen :: "'a result \<Rightarrow> ('a \<Rightarrow> 'b result) \<Rightarrow> 'b result" where
  "andThen m f = (case m of Inl e \<Rightarrow> Inl e | Inr x \<Rightarrow> f x)"

fun for_each :: "('a \<Rightarrow> 's \<Rightarrow> 's result) \<Rightarrow> 'a list \<Rightarrow> 's \<Rightarrow> 's result" where
  "for_each f [] s = Inr s"
| "for_each f (x # xs) s = andThen (f x s) (for_each f xs)"

text \<open>
  \<^verbatim>\<open>o.k\<close> on an object, for a name \<open>k\<close> written in the source that no member of
  \<^verbatim>\<open>Object.prototype\<close> has: the own property, \<^verbatim>\<open>undefined\<close> when there is none.
\<close>

definition field :: "obj \<Rightarrow> string \<Rightarrow> jsval" where
  "field kvs k = (case map_of kvs k of None \<Rightarrow> JUndefined | Some v \<Rightarrow> v)"

definition digits :: "string \<Rightarrow> bool" where
  "digits k = (k \<noteq> [] \<and> list_all (\<lambda>c. c \<in> set ''0123456789'') k)"

definition nullish :: "jsval \<Rightarrow> bool" where
  "nullish v = (v = JUndefined \<or> v = JNull)"

text \<open>The names of the members of \<^verbatim>\<open>Object.prototype\<close>.\<close>

definition inherited_names :: "string list" where
  "inherited_names =
     [''constructor'', ''__defineGetter__'', ''__defineSetter__'', ''hasOwnProperty'',
      ''__lookupGetter__'', ''__lookupSetter__'', ''isPrototypeOf'',
      ''propertyIsEnumerable'', ''toString'', ''valueOf'', ''__proto__'',
      ''toLocaleString'']"

definition inherited :: "string \<Rightarrow> bool" where
  "inherited k = (k \<in> set inherited_names)"

text \<open>
  The data fields the reducer reads by name on values it did not build itself. None
  of them is a member of a built-in prototype or a property of a built-in function.
\<close>

definition data_fields :: "string list" where
  "data_fields =
     [''address'', ''addressesFound'', ''allTokens'', ''allowed'', ''available'',
      ''balance'', ''balances'', ''currentAddress'', ''data'', ''errors'', ''height'',
      ''htrUpdatedBalance'', ''index'', ''isOnline'', ''is_voided'', ''lastSharedAddress'',
      ''lastSharedIndex'', ''locked'', ''network'', ''newHistory'', ''oldStatus'',
      ''password'', ''registeredTokens'', ''status'', ''symbol'', ''timestamp'', ''token'',
      ''tokenId'', ''tokens'', ''tokensBalance'', ''tokensHistory'', ''transactionsFound'',
      ''tx'', ''tx_id'', ''uid'', ''unlocked'', ''updatedAt'', ''updatedBalanceMap'',
      ''version'']"

definition absent_field :: "string \<Rightarrow> jsval result" where
  "absent_field k = (if k \<in> set data_fields then Inr JUndefined else Inl Unmodelled)"

text \<open>
  \<^verbatim>\<open>v.k\<close> and \<^verbatim>\<open>v[k]\<close> on any value. On an object an own property comes first, then the
  inherited member of that name.
\<close>

fun get_prop :: "jsval \<Rightarrow> string \<Rightarrow> jsval result" where
  "get_prop JUndefined k = Inl TypeError"
| "get_prop JNull k = Inl TypeError"
| "get_prop (JObj kvs) k =
     Inr (if k \<in> set (map fst kvs) \<or> \<not> inherited k then field kvs k else JInherited k)"
| "get_prop (JArr elems props) k =
     (if k = ''length'' then Inr (JNum (int (length elems)))
      else if digits k then Inl Unmodelled
      else if k \<in> set (map fst props) then Inr (field props k)
      else absent_field k)"
| "get_prop (JStr s) k = (if k = ''length'' \<or> digits k then Inl Unmodelled else absent_field k)"
| "get_prop (JFun f) k = Inl Unmodelled"
| "get_prop v k = absent_field k"

fun truthy :: "jsval \<Rightarrow> bool" where
  "truthy JUndefined = False"
| "truthy JNull = False"
| "truthy (JBool b) = b"
| "truthy (JNum n) = (n \<noteq> 0)"
| "truthy JNaN = False"
| "truthy (JStr s) = (s \<noteq> [])"
| "truthy v = True"

fun primitive :: "jsval \<Rightarrow> bool" where
  "primitive (JObj kvs) = False"
| "primitive (JArr elems props) = False"
| "primitive (JFun f) = False"
| "primitive (JInherited n) = False"
| "primitive v = True"

text \<open>
  \<^verbatim>\<open>a === b\<close>: primitives by value (\<^verbatim>\<open>NaN\<close> equals nothing), functions by identity; two
  objects are equal when they are the same reference, which a value does not tell, and
  neither does it tell whether a function or an object is a member of
  \<^verbatim>\<open>Object.prototype\<close>.
\<close>

definition strict_eq :: "jsval \<Rightarrow> jsval \<Rightarrow> bool result" where
  "strict_eq a b =
     (if primitive a \<or> primitive b then Inr (a = b \<and> a \<noteq> JNaN)
      else case (a, b) of
        (JFun f, JFun g) \<Rightarrow> Inr (f = g)
      | (JInherited n, _) \<Rightarrow> Inl Unmodelled
      | (_, JInherited n) \<Rightarrow> Inl Unmodelled
      | (JFun f, _) \<Rightarrow> Inr False
      | (_, JFun g) \<Rightarrow> Inr False
      | _ \<Rightarrow> Inl Unmodelled)"

text \<open>
  \<^verbatim>\<open>(a + b) === 0\<close>. A string operand, or an object, array or function (which
  convert to a string), makes the sum a string. Otherwise both operands convert to
  numbers: \<^verbatim>\<open>undefined\<close> to \<^verbatim>\<open>NaN\<close>, \<^verbatim>\<open>null\<close> and \<^verbatim>\<open>false\<close> to 0, \<^verbatim>\<open>true\<close> to 1. A sum of
  two finite doubles is zero exactly when the exact sum is.
\<close>

fun to_number :: "jsval \<Rightarrow> int option" where
  "to_number (JNum n) = Some n"
| "to_number JNull = Some 0"
| "to_number (JBool b) = Some (if b then 1 else 0)"
| "to_number v = None"

fun converts_to_string :: "jsval \<Rightarrow> bool" where
  "converts_to_string (JStr s) = True"
| "converts_to_string v = (\<not> primitive v)"

definition sum_is_zero :: "jsval \<Rightarrow> jsval \<Rightarrow> bool" where
  "sum_is_zero a b =
     (if converts_to_string a \<or> converts_to_string b then False
      else case (to_number a, to_number b) of
        (Some x, Some y) \<Rightarrow> x + y = 0
      | _ \<Rightarrow> False)"

text \<open>Decimal notation, for a number used as a property key.\<close>

definition digit_char :: "nat \<Rightarrow> char" where
  "digit_char d = ''0123456789'' ! d"

function dec_nat :: "nat \<Rightarrow> string" where
  "dec_nat n = (if n < 10 then [digit_char n] else dec_nat (n div 10) @ [digit_char (n mod 10)])"
  by pat_completeness auto
termination
  by (relation "measure id") auto

declare dec_nat.simps [simp del]

definition dec_int :: "int \<Rightarrow> string" where
  "dec_int i = (if i < 0 then CHR ''-'' # dec_nat (nat (- i)) else dec_nat (nat i))"

text \<open>A value used as a property key (\<^verbatim>\<open>o[v]\<close>, \<^verbatim>\<open>{[v]: x}\<close>) is converted to a string.\<close>

fun to_key :: "jsval \<Rightarrow> string result" where
  "to_key (JStr s) = Inr s"
| "to_key JUndefined = Inr ''undefined''"
| "to_key JNull = Inr ''null''"
| "to_key (JBool b) = Inr (if b then ''true'' else ''false'')"
| "to_key (JNum n) = (if \<bar>n\<bar> < 10 ^ 21 then Inr (dec_int n) else Inl Unmodelled)"
| "to_key JNaN = Inr ''NaN''"
| "to_key (JObj kvs) = Inr ''[object Object]''"
| "to_key (JArr elems props) = Inl Unmodelled"
| "to_key (JFun f) = Inl Unmodelled"
| "to_key (JInherited n) = Inl Unmodelled"

text \<open>
  The own enumerable properties of a value that is neither \<^verbatim>\<open>undefined\<close> nor \<^verbatim>\<open>null\<close>.
  The index keys of a non-empty array or string are not modelled.
\<close>

fun own_props :: "jsval \<Rightarrow> obj result" where
  "own_props (JObj kvs) = Inr kvs"
| "own_props (JArr elems props) = (if elems = [] then Inr props else Inl Unmodelled)"
| "own_props (JStr s) = (if s = [] then Inr [] else Inl Unmodelled)"
| "own_props v = Inr []"

text \<open>\<^verbatim>\<open>{...v}\<close> and a source of \<^verbatim>\<open>Object.assign\<close>: \<^verbatim>\<open>undefined\<close> and \<^verbatim>\<open>null\<close> are skipped.\<close>

definition spread :: "jsval \<Rightarrow> obj result" where
  "spread v = (if nullish v then Inr [] else own_props v)"

text \<open>\<^verbatim>\<open>Object.entries(v)\<close> raises on \<^verbatim>\<open>undefined\<close> and \<^verbatim>\<open>null\<close>.\<close>

definition entries :: "jsval \<Rightarrow> obj result" where
  "entries v = (if nullish v then Inl TypeError else own_props v)"

text \<open>
  Writing properties into an object, in order: \<^verbatim>\<open>{...target, k1: v1, k2: v2}\<close>. An
  existing key keeps its position.
\<close>

definition set_fields :: "obj \<Rightarrow> obj \<Rightarrow> obj" where
  "set_fields target kvs = fold (\<lambda>(k, v). AList.update k v) kvs target"

text \<open>\<^verbatim>\<open>Object.assign({}, s1, s2, ...)\<close>.\<close>

fun assign :: "obj \<Rightarrow> jsval list \<Rightarrow> obj result" where
  "assign target [] = Inr target"
| "assign target (s # ss) = andThen (spread s) (\<lambda>kvs. assign (set_fields target kvs) ss)"

text \<open>\<^verbatim>\<open>[...v]\<close>: arrays are iterable; the characters of a non-empty string are not modelled.\<close>

fun spread_array :: "jsval \<Rightarrow> jsval list result" where
  "spread_array (JArr elems props) = Inr elems"
| "spread_array (JStr s) = (if s = [] then Inr [] else Inl Unmodelled)"
| "spread_array v = Inl TypeError"

text \<open>
  \<^verbatim>\<open>a[i] = v\<close> on an array, \<open>i\<close> a number: an index below the length replaces the
  element, the length appends, a negative number is an ordinary property key and
  leaves the elements and the length as they are. An index beyond the length would
  leave holes, which dense arrays do not have.
\<close>

definition array_set :: "jsval list \<times> obj \<Rightarrow> int \<Rightarrow> jsval \<Rightarrow> (jsval list \<times> obj) result" where
  "array_set a i v =
     (case a of (elems, props) \<Rightarrow>
        if 0 \<le> i \<and> i < int (length elems) then Inr (elems[nat i := v], props)
        else if i = int (length elems) then Inr (elems @ [v], props)
        else if 0 \<le> i then Inl Unmodelled
        else andThen (to_key (JNum i)) (\<lambda>k. Inr (elems, AList.update k v props)))"

text \<open>
  \<^verbatim>\<open>Array.prototype.findIndex\<close>: the first index whose element the callback accepts,
  \<^verbatim>\<open>-1\<close> when there is none. The callback may raise.
\<close>

fun findIndex_from :: "(jsval \<Rightarrow> bool result) \<Rightarrow> jsval list \<Rightarrow> nat \<Rightarrow> int result" where
  "findIndex_from cb [] i = Inr (- 1)"
| "findIndex_from cb (el # els) i =
     andThen (cb el) (\<lambda>found. if found then Inr (int i) else findIndex_from cb els (Suc i))"

text \<open>
  \<^verbatim>\<open>v.findIndex(cb)\<close>: on anything but an array the property \<^verbatim>\<open>findIndex\<close> is not a
  function and the call raises, unless an object carries a function of that name.
\<close>

fun method_findIndex :: "jsval \<Rightarrow> (jsval \<Rightarrow> bool result) \<Rightarrow> int result" where
  "method_findIndex (JArr elems props) cb = findIndex_from cb elems 0"
| "method_findIndex (JObj kvs) cb =
     (case field kvs ''findIndex'' of JFun f \<Rightarrow> Inl Unmodelled | _ \<Rightarrow> Inl TypeError)"
| "method_findIndex (JFun f) cb = Inl Unmodelled"
| "method_findIndex v cb = Inl TypeError"

text \<open>
  \<^verbatim>\<open>v.entries()\<close>, the iterator of index and element pairs of an array.
\<close>

fun method_entries :: "jsval \<Rightarrow> (nat \<times> jsval) list result" where
  "method_entries (JArr elems props) = Inr (List.enumerate 0 elems)"
| "method_entries (JObj kvs) =
     (case field kvs ''entries'' of JFun f \<Rightarrow> Inl Unmodelled | _ \<Rightarrow> Inl TypeError)"
| "method_entries (JFun f) = Inl Unmodelled"
| "method_entries (JInherited n) = Inl Unmodelled"
| "method_entries v = Inl TypeError"

text \<open>\<^verbatim>\<open>base[key]\<close> with a computed key: a base without properties raises first.\<close>

definition get_index :: "jsval \<Rightarrow> jsval \<Rightarrow> jsval result" where
  "get_index base key =
     (if nullish base then Inl TypeError else andThen (to_key key) (get_prop base))"

text \<open>
  An object literal, evaluated left to right: \<^verbatim>\<open>...e\<close>, \<^verbatim>\<open>k: e\<close> and \<^verbatim>\<open>[e1]: e2\<close>.
\<close>

datatype elem =
    Spread "jsval result"
  | Prop string "jsval result"
  | Computed "string result" "jsval result"

fun build :: "obj \<Rightarrow> elem list \<Rightarrow> obj result" where
  "build acc [] = Inr acc"
| "build acc (Spread m # es) =
     andThen m (\<lambda>v. andThen (spread v) (\<lambda>kvs. build (set_fields acc kvs) es))"
| "build acc (Prop k m # es) = andThen m (\<lambda>v. build (AList.update k v acc) es)"
| "build acc (Computed mk m # es) =
     andThen mk (\<lambda>k. andThen m (\<lambda>v. build (AList.update k v acc) es))"

definition object_literal :: "elem list \<Rightarrow> jsval result" where
  "object_literal es = andThen (build [] es) (\<lambda>kvs. Inr (JObj kvs))"

text \<open>The array literal \<^verbatim>\<open>[...a, ...b]\<close>.\<close>

definition concat_spread :: "jsval \<Rightarrow> jsval \<Rightarrow> jsval result" where
  "concat_spread a b =
     andThen (spread_array a) (\<lambda>xs. andThen (spread_array b) (\<lambda>ys. Inr (JArr (xs @ ys) [])))"

text \<open>
  lodash's \<^verbatim>\<open>get(object, path, defaultValue)\<close> for a path that is one key: a primitive
  other than a string, a string without \<^verbatim>\<open>.\<close> and \<^verbatim>\<open>[\<close>, or a string that is an own key
  of the object. Any other path goes through lodash's path syntax. The defaultValue
  replaces an \<^verbatim>\<open>undefined\<close> result (not a \<^verbatim>\<open>null\<close> one).
\<close>

definition plain_path :: "string \<Rightarrow> bool" where
  "plain_path k = (CHR ''.'' \<notin> set k \<and> CHR ''['' \<notin> set k)"

fun own_key :: "jsval \<Rightarrow> string \<Rightarrow> bool" where
  "own_key (JObj kvs) k = (k \<in> set (map fst kvs))"
| "own_key v k = False"

definition lodash_get :: "jsval \<Rightarrow> jsval \<Rightarrow> jsval \<Rightarrow> jsval result" where
  "lodash_get object path defaultValue =
     (if nullish object then Inr defaultValue
      else if \<not> primitive path then Inl Unmodelled
      else andThen (to_key path) (\<lambda>k.
        if \<not> (plain_path k \<or> own_key object k) then Inl Unmodelled
        else andThen (get_prop object k) (\<lambda>v. Inr (if v = JUndefined then defaultValue else v))))"

text \<open>
  \<^verbatim>\<open>get(object, `${token}.data`, defaultValue)\<close>: the path \<^verbatim>\<open>token.data\<close> is the own key
  of that name when the object has one, and otherwise the two keys \<^verbatim>\<open>token\<close> and
  \<^verbatim>\<open>data\<close>, for a token without \<^verbatim>\<open>.\<close>, \<^verbatim>\<open>[\<close> and \<^verbatim>\<open>]\<close>.
\<close>

definition lodash_get_data :: "jsval \<Rightarrow> jsval \<Rightarrow> jsval \<Rightarrow> jsval result" where
  "lodash_get_data object token defaultValue =
     (if \<not> primitive token then Inl Unmodelled
      else andThen (to_key token) (\<lambda>t.
        if nullish object then Inr defaultValue
        else case object of
          JObj kvs \<Rightarrow>
            if (t @ ''.data'') \<in> set (map fst kvs)
            then Inr (if field kvs (t @ ''.data'') = JUndefined then defaultValue
                      else field kvs (t @ ''.data''))
            else if \<not> plain_path t \<or> CHR '']'' \<in> set t then Inl Unmodelled
            else andThen (get_prop object t) (\<lambda>entry.
                   if nullish entry then Inr defaultValue
                   else andThen (get_prop entry ''data'')
                          (\<lambda>v. Inr (if v = JUndefined then defaultValue else v)))
        | _ \<Rightarrow> Inl Unmodelled))"

text \<open>
  \<^verbatim>\<open>k in o\<close> on an object finds inherited members too. \<^verbatim>\<open>o[k] = v\<close> on an object
  writes an own property, except for the key \<^verbatim>\<open>__proto__\<close> that is not an own property:
  that assignment goes to the setter of the prototype and is not modelled.
\<close>

definition has_property :: "obj \<Rightarrow> string \<Rightarrow> bool" where
  "has_property kvs k = (k \<in> set (map fst kvs) \<or> inherited k)"

definition assign_prop :: "obj \<Rightarrow> string \<Rightarrow> jsval \<Rightarrow> obj result" where
  "assign_prop kvs k v =
     (if k = ''__proto__'' \<and> k \<notin> set (map fst kvs) then Inl Unmodelled
      else Inr (AList.update k v kvs))"

section \<open>The store\<close>

text \<open>
  What the reducer imports from modules that are not part of the sources at hand, and
  the clock it reads, are parameters: the action type constants of \<^verbatim>\<open>../actions\<close>
  (\<open>types\<close>, from the constant's name to its string), the native token uid of the
  wallet library, the feature toggle defaults and the version of \<^verbatim>\<open>../constants\<close>, the
  three status enumerations, \<^verbatim>\<open>helpersUtils.isAllAuthority\<close>, and the value of
  \<^verbatim>\<open>new Date().getTime()\<close> during the transition.
\<close>

record env =
  types :: "string \<Rightarrow> string"
  NATIVE_TOKEN_UID :: string
  FEATURE_TOGGLE_DEFAULTS :: obj
  VERSION :: jsval
  TOKEN_DOWNLOAD_STATUS :: obj
  WALLET_STATUS :: obj
  PROPOSAL_DOWNLOAD_STATUS :: obj
  isAllAuthority :: "jsval \<Rightarrow> jsval result"
  now :: int

text \<open>
  The reducer has two effects besides its result: it stores the wallet version in
  \<^verbatim>\<open>LOCAL_STORE\<close>, and it calls the function kept in \<^verbatim>\<open>lockWalletPromise\<close>. A function
  of the store is the resolver of a promise, which returns without raising.
\<close>

datatype effect = SetWalletVersion jsval | Call nat jsval

definition initialState :: "env \<Rightarrow> obj" where
  "initialState c =
     [(''tokensHistory'', JObj []),
      (''tokensBalance'', JObj []),
      (''lastSharedAddress'', JNull),
      (''lastSharedIndex'', JNull),
      (''isVersionAllowed'', JUndefined),
      (''isOnline'', JBool False),
      (''network'', JUndefined),
      (''lastFailedRequest'', JUndefined),
      (''requestErrorStatusCode'', JUndefined),
      (''tokens'', JArr [] []),
      (''selectedToken'', JStr (NATIVE_TOKEN_UID c)),
      (''allTokens'', JObj []),
      (''loadingAddresses'', JBool False),
      (''loadedData'', JObj [(''transactions'', JNum 0), (''addresses'', JNum 0)]),
      (''height'', JNum 0),
      (''walletState'', JNull),
      (''tokenMetadata'', JObj []),
      (''tokenMetadataErrors'', JArr [] []),
      (''metadataLoaded'', JBool False),
      (''useWalletService'', JBool False),
      (''lockWalletPromise'', JNull),
      (''ledgerWasClosed'', JBool False),
      (''serverInfo'', JObj [(''network'', JNull), (''version'', JNull)]),
      (''startWalletAction'', JNull),
      (''navigateTo'', JObj [(''route'', JStr []), (''replace'', JBool False)]),
      (''useAtomicSwap'', JBool False),
      (''proposals'', JObj []),
      (''tokensCache'', JObj []),
      (''featureTogglesInitialized'', JBool False),
      (''featureToggles'', JObj (set_fields [] (FEATURE_TOGGLE_DEFAULTS c))),
      (''miningServer'', JNull),
      (''nativeTokenData'', JNull)]"

text \<open>\<^verbatim>\<open>{...state, k1: e1, ...}\<close> as the next state.\<close>

definition state_with :: "obj \<Rightarrow> elem list \<Rightarrow> obj result" where
  "state_with state es = build [] (Spread (Inr (JObj state)) # es)"

definition getTxHistoryFromWSTx :: "env \<Rightarrow> jsval \<Rightarrow> jsval \<Rightarrow> jsval \<Rightarrow> jsval result" where
  "getTxHistoryFromWSTx c tx tokenUid tokenTxBalance =
     object_literal
       [Prop ''tx_id'' (get_prop tx ''tx_id''),
        Prop ''timestamp'' (get_prop tx ''timestamp''),
        Prop ''tokenUid'' (Inr tokenUid),
        Prop ''balance'' (Inr tokenTxBalance),
        Prop ''is_voided'' (get_prop tx ''is_voided''),
        Prop ''version'' (get_prop tx ''version''),
        Prop ''isAllAuthority'' (isAllAuthority c tx)]"

definition onLoadWalletSuccess :: "env \<Rightarrow> obj \<Rightarrow> obj \<Rightarrow> effect list \<times> obj result" where
  "onLoadWalletSuccess c state action =
     ([SetWalletVersion (VERSION c)],
      andThen (get_prop (field action ''payload'') ''tokens'') (\<lambda>tokens.
      andThen (get_prop (field action ''payload'') ''registeredTokens'') (\<lambda>registeredTokens.
      andThen (get_prop (field action ''payload'') ''currentAddress'') (\<lambda>currentAddress.
      state_with state
        [Prop ''loadingAddresses'' (Inr (JBool False)),
         Prop ''lastSharedAddress'' (get_prop currentAddress ''address''),
         Prop ''lastSharedIndex'' (get_prop currentAddress ''index''),
         Prop ''allTokens'' (Inr tokens),
         Prop ''tokens'' (Inr registeredTokens)]))))"

text \<open>The callback of \<^verbatim>\<open>findIndex\<close> in \<open>onUpdateTx\<close>: \<^verbatim>\<open>(el) => el.tx_id === tx.tx_id\<close>.\<close>

definition same_tx :: "jsval \<Rightarrow> jsval \<Rightarrow> bool result" where
  "same_tx tx el =
     andThen (get_prop el ''tx_id'') (\<lambda>l. andThen (get_prop tx ''tx_id'') (\<lambda>r. strict_eq l r))"

text \<open>
  The body of the loop of \<open>onUpdateTx\<close> over \<^verbatim>\<open>Object.entries(balances)\<close>: the new
  history of one token, and its assignment to \<^verbatim>\<open>updatedHistoryMap[tokenUid]\<close>.
\<close>

definition onUpdateTx_newHistory :: "env \<Rightarrow> obj \<Rightarrow> jsval \<Rightarrow> string \<Rightarrow> jsval \<Rightarrow> jsval result" where
  "onUpdateTx_newHistory c state tx tokenUid tokenTxBalance =
     andThen (get_prop (field state ''tokensHistory'') tokenUid) (\<lambda>slot.
     let currentHistory = (if truthy slot then slot else JArr [] []) in
     andThen (method_findIndex currentHistory (same_tx tx)) (\<lambda>txIndex.
     andThen (spread_array currentHistory) (\<lambda>newHistory.
     andThen (getTxHistoryFromWSTx c tx (JStr tokenUid) tokenTxBalance) (\<lambda>newEntry.
     andThen (array_set (newHistory, []) txIndex newEntry) (\<lambda>(elems, props).
     Inr (JArr elems props))))))"

definition onUpdateTx_step :: "env \<Rightarrow> obj \<Rightarrow> jsval \<Rightarrow> string \<times> jsval \<Rightarrow> obj \<Rightarrow> obj result" where
  "onUpdateTx_step c state tx entry updatedHistoryMap =
     (case entry of (tokenUid, tokenTxBalance) \<Rightarrow>
        andThen (onUpdateTx_newHistory c state tx tokenUid tokenTxBalance) (\<lambda>newHistory.
        assign_prop updatedHistoryMap tokenUid newHistory))"

definition onUpdateTx :: "env \<Rightarrow> obj \<Rightarrow> obj \<Rightarrow> obj result" where
  "onUpdateTx c state action =
     andThen (get_prop (field action ''payload'') ''tx'') (\<lambda>tx.
     andThen (get_prop (field action ''payload'') ''updatedBalanceMap'') (\<lambda>updatedBalanceMap.
     andThen (get_prop (field action ''payload'') ''balances'') (\<lambda>balances.
     andThen (entries balances) (\<lambda>balanceEntries.
     andThen (for_each (onUpdateTx_step c state tx) balanceEntries []) (\<lambda>updatedHistoryMap.
     andThen (assign [] [field state ''tokensHistory'', JObj updatedHistoryMap]) (\<lambda>newTokensHistory.
     andThen (assign [] [field state ''tokensBalance'', updatedBalanceMap]) (\<lambda>newTokensBalance.
     assign [] [JObj state,
                JObj [(''tokensHistory'', JObj newTokensHistory),
                      (''tokensBalance'', JObj newTokensBalance)]])))))))"

definition onUpdateLoadedData :: "env \<Rightarrow> obj \<Rightarrow> obj \<Rightarrow> obj result" where
  "onUpdateLoadedData c state action =
     state_with state [Prop ''loadedData'' (Inr (field action ''payload''))]"

definition onCleanData :: "env \<Rightarrow> obj \<Rightarrow> obj result" where
  "onCleanData c state =
     assign [] [JObj (initialState c),
                JObj [(''isVersionAllowed'', field state ''isVersionAllowed''),
                      (''loadingAddresses'', field state ''loadingAddresses''),
                      (''ledgerWasClosed'', field state ''ledgerWasClosed''),
                      (''featureTogglesInitialized'', field state ''featureTogglesInitialized'')]]"

definition onUpdateTokenHistory :: "env \<Rightarrow> obj \<Rightarrow> obj \<Rightarrow> obj result" where
  "onUpdateTokenHistory c state action =
     andThen (get_prop (field action ''payload'') ''token'') (\<lambda>token.
     andThen (get_prop (field action ''payload'') ''newHistory'') (\<lambda>newHistory.
     state_with state
       [Prop ''tokensHistory'' (object_literal
          [Spread (Inr (field state ''tokensHistory'')),
           Computed (to_key token) (object_literal
             [Spread (get_index (field state ''tokensHistory'') token),
              Prop ''data''
                (andThen (lodash_get_data (field state ''tokensHistory'') token (JArr [] []))
                   (\<lambda>old. concat_spread old newHistory))])])]))"

definition onUpdateHeight :: "env \<Rightarrow> obj \<Rightarrow> obj \<Rightarrow> obj result" where
  "onUpdateHeight c state action =
     andThen (get_prop (field action ''payload'') ''height'') (\<lambda>height.
     andThen (strict_eq height (field state ''height'')) (\<lambda>same.
     if \<not> same then
       andThen (get_prop (field action ''payload'') ''htrUpdatedBalance'') (\<lambda>htrUpdatedBalance.
       let tokensBalance = AList.update (NATIVE_TOKEN_UID c) htrUpdatedBalance [] in
       andThen (assign [] [field state ''tokensBalance'', JObj tokensBalance]) (\<lambda>newTokensBalance.
       state_with state
         [Prop ''tokensBalance'' (Inr (JObj newTokensBalance)),
          Prop ''height'' (get_prop (field action ''payload'') ''height'')]))
     else Inr state))"

definition tokenMetadataUpdated :: "env \<Rightarrow> obj \<Rightarrow> obj \<Rightarrow> obj result" where
  "tokenMetadataUpdated c state action =
     andThen (get_prop (field action ''payload'') ''data'') (\<lambda>data.
     andThen (get_prop (field action ''payload'') ''errors'') (\<lambda>errors.
     andThen (assign [] [field state ''tokenMetadata'', data]) (\<lambda>newMeta.
     andThen (concat_spread (field state ''tokenMetadataErrors'') errors) (\<lambda>newErrors.
     state_with state
       [Prop ''metadataLoaded'' (Inr (JBool True)),
        Prop ''tokenMetadata'' (Inr (JObj newMeta)),
        Prop ''tokenMetadataErrors'' (Inr newErrors)]))))"

text \<open>
  In \<open>removeTokenMetadata\<close> the copy \<^verbatim>\<open>newBalance\<close> is built and a key may be deleted
  from it, but the returned object takes \<^verbatim>\<open>tokensBalance\<close> from \<^verbatim>\<open>...state\<close>: the copy
  only matters for the errors its construction can raise.
\<close>

definition removeTokenMetadata :: "env \<Rightarrow> obj \<Rightarrow> obj \<Rightarrow> obj result" where
  "removeTokenMetadata c state action =
     (let uid = field action ''payload'' in
      andThen (assign [] [field state ''tokenMetadata'']) (\<lambda>copiedMeta.
      andThen (to_key uid) (\<lambda>k.
      let newMeta = (if has_property copiedMeta k then AList.delete k copiedMeta
                     else copiedMeta) in
      andThen (assign [] [field state ''tokensBalance'']) (\<lambda>copiedBalance.
      andThen
        (if has_property copiedBalance k then
           andThen (get_prop (JObj copiedBalance) k) (\<lambda>entry.
           andThen (get_prop entry ''data'') (\<lambda>balance.
           if truthy balance then
             andThen (get_prop balance ''unlocked'') (\<lambda>unlocked.
             andThen (get_prop balance ''locked'') (\<lambda>locked.
             Inr (if sum_is_zero unlocked locked then AList.delete k copiedBalance
                  else copiedBalance)))
           else Inr copiedBalance))
         else Inr copiedBalance) (\<lambda>newBalance.
      state_with state [Prop ''tokenMetadata'' (Inr (JObj newMeta))])))))"

definition partiallyUpdateHistoryAndBalance :: "env \<Rightarrow> obj \<Rightarrow> obj \<Rightarrow> obj result" where
  "partiallyUpdateHistoryAndBalance c state action =
     andThen (get_prop (field action ''payload'') ''tokensHistory'') (\<lambda>tokensHistory.
     andThen (get_prop (field action ''payload'') ''tokensBalance'') (\<lambda>tokensBalance.
     state_with state
       [Prop ''tokensHistory'' (object_literal
          [Spread (Inr (field state ''tokensHistory'')), Spread (Inr tokensHistory)]),
        Prop ''tokensBalance'' (object_literal
          [Spread (Inr (field state ''tokensBalance'')), Spread (Inr tokensBalance)])]))"

definition onSetUseWalletService :: "env \<Rightarrow> obj \<Rightarrow> obj \<Rightarrow> obj result" where
  "onSetUseWalletService c state action =
     state_with state [Prop ''useWalletService'' (Inr (field action ''payload''))]"

definition onLockWalletForResult :: "env \<Rightarrow> obj \<Rightarrow> obj \<Rightarrow> obj result" where
  "onLockWalletForResult c state action =
     state_with state [Prop ''lockWalletPromise'' (Inr (field action ''payload''))]"

text \<open>
  \<^verbatim>\<open>state.lockWalletPromise(action.payload)\<close> raises unless the slot holds a function.
\<close>

definition onResolveLockWalletPromise :: "env \<Rightarrow> obj \<Rightarrow> obj \<Rightarrow> effect list \<times> obj result" where
  "onResolveLockWalletPromise c state action =
     (case field state ''lockWalletPromise'' of
        JFun f \<Rightarrow>
          ([Call f (field action ''payload'')],
           state_with state [Prop ''lockWalletPromise'' (Inr JNull)])
      | JInherited n \<Rightarrow> ([], Inl Unmodelled)
      | _ \<Rightarrow> ([], Inl TypeError))"

definition resetSelectedTokenIfNeeded :: "env \<Rightarrow> obj \<Rightarrow> obj \<Rightarrow> obj result" where
  "resetSelectedTokenIfNeeded c state action =
     (let tokensBalance = field state ''tokensBalance'';
          selectedToken = field state ''selectedToken'' in
      andThen (get_index tokensBalance selectedToken) (\<lambda>slot.
      let balance = (if truthy slot then slot
                     else JObj [(''available'', JNum 0), (''locked'', JNum 0)]) in
      andThen (get_prop balance ''available'') (\<lambda>available.
      andThen (get_prop balance ''locked'') (\<lambda>locked.
      let hasZeroBalance = sum_is_zero available locked in
      if hasZeroBalance
      then state_with state [Prop ''selectedToken'' (Inr (JStr (NATIVE_TOKEN_UID c)))]
      else Inr state))))"

definition onNewTokens :: "env \<Rightarrow> obj \<Rightarrow> obj \<Rightarrow> obj result" where
  "onNewTokens c state action =
     andThen (build [] [Spread (Inr (field state ''allTokens''))]) (\<lambda>copied.
     andThen (get_prop (field action ''payload'') ''uid'') (\<lambda>newTokenUid.
     andThen (to_key newTokenUid) (\<lambda>k.
     andThen (assign_prop copied k newTokenUid) (\<lambda>allTokens.
     state_with state
       [Prop ''selectedToken'' (Inr newTokenUid),
        Prop ''tokens'' (get_prop (field action ''payload'') ''tokens''),
        Prop ''allTokens'' (Inr (JObj allTokens))]))))"

definition onTokenFetchBalanceRequested :: "env \<Rightarrow> obj \<Rightarrow> obj \<Rightarrow> obj result" where
  "onTokenFetchBalanceRequested c state action =
     (let tokenId = field action ''tokenId'' in
      andThen (lodash_get (field state ''tokensBalance'') tokenId (JObj [])) (\<lambda>oldState.
      state_with state
        [Prop ''tokensBalance'' (object_literal
           [Spread (Inr (field state ''tokensBalance'')),
            Computed (to_key tokenId) (object_literal
              [Spread (Inr oldState),
               Prop ''status'' (Inr (field (TOKEN_DOWNLOAD_STATUS c) ''LOADING'')),
               Prop ''oldStatus'' (get_prop oldState ''status'')])])]))"

definition onTokenFetchBalanceSuccess :: "env \<Rightarrow> obj \<Rightarrow> obj \<Rightarrow> obj result" where
  "onTokenFetchBalanceSuccess c state action =
     (let tokenId = field action ''tokenId''; data = field action ''data'' in
      andThen (lodash_get (field state ''tokensBalance'') tokenId (JObj [])) (\<lambda>oldState.
      state_with state
        [Prop ''tokensBalance'' (object_literal
           [Spread (Inr (field state ''tokensBalance'')),
            Computed (to_key tokenId) (object_literal
              [Prop ''status'' (Inr (field (TOKEN_DOWNLOAD_STATUS c) ''READY'')),
               Prop ''updatedAt'' (Inr (JNum (now c))),
               Prop ''data'' (Inr data),
               Prop ''oldStatus'' (get_prop oldState ''status'')])])]))"

definition onTokenFetchBalanceFailed :: "env \<Rightarrow> obj \<Rightarrow> obj \<Rightarrow> obj result" where
  "onTokenFetchBalanceFailed c state action =
     (let tokenId = field action ''tokenId'' in
      andThen (lodash_get (field state ''tokensBalance'') tokenId (JObj [])) (\<lambda>oldState.
      state_with state
        [Prop ''tokensBalance'' (object_literal
           [Spread (Inr (field state ''tokensBalance'')),
            Computed (to_key tokenId) (object_literal
              [Prop ''status'' (Inr (field (TOKEN_DOWNLOAD_STATUS c) ''FAILED'')),
               Prop ''oldStatus'' (get_prop oldState ''status'')])])]))"

definition onTokenFetchHistorySuccess :: "env \<Rightarrow> obj \<Rightarrow> obj \<Rightarrow> obj result" where
  "onTokenFetchHistorySuccess c state action =
     (let tokenId = field action ''tokenId''; data = field action ''data'' in
      andThen (lodash_get (field state ''tokensHistory'') tokenId (JObj [])) (\<lambda>oldState.
      state_with state
        [Prop ''tokensHistory'' (object_literal
           [Spread (Inr (field state ''tokensHistory'')),
            Computed (to_key tokenId) (object_literal
              [Prop ''status'' (Inr (field (TOKEN_DOWNLOAD_STATUS c) ''READY'')),
               Prop ''updatedAt'' (Inr (JNum (now c))),
               Prop ''data'' (Inr data),
               Prop ''oldStatus'' (get_prop oldState ''status'')])])]))"

definition onTokenFetchHistoryFailed :: "env \<Rightarrow> obj \<Rightarrow> obj \<Rightarrow> obj result" where
  "onTokenFetchHistoryFailed c state action =
     (let tokenId = field action ''tokenId'' in
      andThen (lodash_get (field state ''tokensHistory'') tokenId (JObj [])) (\<lambda>oldState.
      state_with state
        [Prop ''tokensHistory'' (object_literal
           [Spread (Inr (field state ''tokensHistory'')),
            Computed (to_key tokenId) (object_literal
              [Prop ''status'' (Inr (field (TOKEN_DOWNLOAD_STATUS c) ''FAILED'')),
               Prop ''data'' (Inr (JArr [] [])),
               Prop ''oldStatus'' (get_prop oldState ''status'')])])]))"

definition onTokenFetchHistoryRequested :: "env \<Rightarrow> obj \<Rightarrow> obj \<Rightarrow> obj result" where
  "onTokenFetchHistoryRequested c state action =
     (let tokenId = field action ''tokenId'' in
      andThen (lodash_get (field state ''tokensHistory'') tokenId (JObj [])) (\<lambda>oldState.
      state_with state
        [Prop ''tokensHistory'' (object_literal
           [Spread (Inr (field state ''tokensHistory'')),
            Computed (to_key tokenId) (object_literal
              [Spread (Inr oldState),
               Prop ''status'' (Inr (field (TOKEN_DOWNLOAD_STATUS c) ''LOADING'')),
               Prop ''oldStatus'' (get_prop oldState ''status'')])])]))"

definition onSetUseAtomicSwap :: "env \<Rightarrow> obj \<Rightarrow> obj \<Rightarrow> obj result" where
  "onSetUseAtomicSwap c state action =
     state_with state [Prop ''useAtomicSwap'' (Inr (field action ''payload''))]"

definition onProposalListUpdated :: "env \<Rightarrow> obj \<Rightarrow> obj \<Rightarrow> obj result" where
  "onProposalListUpdated c state action =
     state_with state [Prop ''proposals'' (Inr (field action ''listenedProposalsMap''))]"

definition onProposalFetchRequested :: "env \<Rightarrow> obj \<Rightarrow> obj \<Rightarrow> obj result" where
  "onProposalFetchRequested c state action =
     (let proposalId = field action ''proposalId'' in
      andThen (lodash_get (field state ''proposals'') proposalId (JObj [(''id'', proposalId)]))
        (\<lambda>oldState.
      state_with state
        [Prop ''proposals'' (object_literal
           [Spread (Inr (field state ''proposals'')),
            Computed (to_key proposalId) (object_literal
              [Spread (Inr oldState),
               Prop ''status'' (Inr (field (PROPOSAL_DOWNLOAD_STATUS c) ''LOADING'')),
               Prop ''oldStatus'' (get_prop oldState ''status'')])])]))"

definition onProposalFetchSuccess :: "env \<Rightarrow> obj \<Rightarrow> obj \<Rightarrow> obj result" where
  "onProposalFetchSuccess c state action =
     (let proposalId = field action ''proposalId''; data = field action ''data'' in
      andThen (lodash_get (field state ''proposals'') proposalId (JObj [(''id'', proposalId)]))
        (\<lambda>oldState.
      state_with state
        [Prop ''proposals'' (object_literal
           [Spread (Inr (field state ''proposals'')),
            Computed (to_key proposalId) (object_literal
              [Spread (Inr oldState),
               Prop ''status'' (Inr (field (PROPOSAL_DOWNLOAD_STATUS c) ''READY'')),
               Prop ''updatedAt'' (Inr (JNum (now c))),
               Prop ''data'' (Inr data)])])]))"

definition onProposalFetchFailed :: "env \<Rightarrow> obj \<Rightarrow> obj \<Rightarrow> obj result" where
  "onProposalFetchFailed c state action =
     (let proposalId = field action ''proposalId'';
          errorMessage = field action ''errorMessage'' in
      andThen (lodash_get (field state ''proposals'') proposalId (JObj [(''id'', proposalId)]))
        (\<lambda>oldState.
      andThen (get_prop oldState ''password'') (\<lambda>password.
      state_with state
        [Prop ''proposals'' (object_literal
           [Spread (Inr (field state ''proposals'')),
            Computed (to_key proposalId) (object_literal
              [Prop ''id'' (Inr proposalId),
               Prop ''password'' (Inr password),
               Prop ''status'' (Inr (field (PROPOSAL_DOWNLOAD_STATUS c) ''FAILED'')),
               Prop ''errorMessage'' (Inr errorMessage),
               Prop ''updatedAt'' (Inr (JNum (now c)))])])])))"

definition onProposalUpdate :: "env \<Rightarrow> obj \<Rightarrow> obj \<Rightarrow> obj result" where
  "onProposalUpdate c state action =
     (let proposalId = field action ''proposalId''; data = field action ''data'' in
      andThen (lodash_get (field state ''proposals'') proposalId (JObj [(''id'', proposalId)]))
        (\<lambda>oldState.
      state_with state
        [Prop ''proposals'' (object_literal
           [Spread (Inr (field state ''proposals'')),
            Computed (to_key proposalId) (object_literal
              [Spread (Inr oldState),
               Prop ''updatedAt'' (Inr (JNum (now c))),
               Prop ''data'' (Inr data)])])]))"

definition onProposalTokenFetchRequested :: "env \<Rightarrow> obj \<Rightarrow> obj \<Rightarrow> obj result" where
  "onProposalTokenFetchRequested c state action =
     (let tokenUid = field action ''tokenUid'' in
      andThen (lodash_get (field state ''tokensCache'') tokenUid
                 (JObj [(''tokenUid'', tokenUid),
                        (''symbol'', JStr []),
                        (''name'', JStr []),
                        (''status'', field (TOKEN_DOWNLOAD_STATUS c) ''LOADING'')]))
        (\<lambda>oldState.
      state_with state
        [Prop ''tokensCache'' (object_literal
           [Spread (Inr (field state ''tokensCache'')),
            Computed (to_key tokenUid) (object_literal
              [Spread (Inr oldState),
               Prop ''status'' (Inr (field (TOKEN_DOWNLOAD_STATUS c) ''LOADING'')),
               Prop ''oldStatus'' (get_prop oldState ''status'')])])]))"

definition onProposalTokenFetchSuccess :: "env \<Rightarrow> obj \<Rightarrow> obj \<Rightarrow> obj result" where
  "onProposalTokenFetchSuccess c state action =
     (let tokenUid = field action ''tokenUid''; data = field action ''data'' in
      state_with state
        [Prop ''tokensCache'' (object_literal
           [Spread (Inr (field state ''tokensCache'')),
            Computed (to_key tokenUid) (object_literal
              [Prop ''tokenUid'' (Inr tokenUid),
               Prop ''symbol'' (get_prop data ''symbol''),
               Prop ''name'' (get_prop data ''name''),
               Prop ''status'' (Inr (field (TOKEN_DOWNLOAD_STATUS c) ''READY''))])])])"

definition onProposalTokenFetchFailed :: "env \<Rightarrow> obj \<Rightarrow> obj \<Rightarrow> obj result" where
  "onProposalTokenFetchFailed c state action =
     (let tokenUid = field action ''tokenUid'';
          errorMessage = field action ''errorMessage'' in
      state_with state
        [Prop ''tokensCache'' (object_literal
           [Spread (Inr (field state ''tokensCache'')),
            Computed (to_key tokenUid) (object_literal
              [Prop ''id'' (Inr tokenUid),
               Prop ''symbol'' (Inr (JStr [])),
               Prop ''name'' (Inr (JStr [])),
               Prop ''status'' (Inr (field (TOKEN_DOWNLOAD_STATUS c) ''FAILED'')),
               Prop ''errorMessage'' (Inr errorMessage)])])])"

definition onProposalImported :: "env \<Rightarrow> obj \<Rightarrow> obj \<Rightarrow> obj result" where
  "onProposalImported c state action =
     (let proposalId = field action ''proposalId''; password = field action ''password'' in
      state_with state
        [Prop ''proposals'' (object_literal
           [Spread (Inr (field state ''proposals'')),
            Computed (to_key proposalId) (object_literal
              [Prop ''id'' (Inr proposalId),
               Prop ''password'' (Inr password),
               Prop ''status'' (Inr (field (PROPOSAL_DOWNLOAD_STATUS c) ''INVALIDATED''))])])])"

definition onProposalRemoved :: "env \<Rightarrow> obj \<Rightarrow> obj \<Rightarrow> obj result" where
  "onProposalRemoved c state action =
     (let proposalId = field action ''proposalId'' in
      andThen (build [] [Spread (Inr (field state ''proposals''))]) (\<lambda>copied.
      andThen (to_key proposalId) (\<lambda>k.
      let newProposals = AList.delete k copied in
      state_with state [Prop ''proposals'' (Inr (JObj newProposals))])))"

definition onStartWalletLock :: "env \<Rightarrow> obj \<Rightarrow> obj result" where
  "onStartWalletLock c state =
     state_with state [Prop ''walletStartState'' (Inr (field (WALLET_STATUS c) ''LOADING''))]"

definition onStartWalletRequested :: "env \<Rightarrow> obj \<Rightarrow> obj \<Rightarrow> obj result" where
  "onStartWalletRequested c state action =
     state_with state
       [Prop ''walletStartState'' (Inr (field (WALLET_STATUS c) ''LOADING'')),
        Prop ''startWalletAction'' (Inr (JObj action))]"

definition onStartWalletSuccess :: "env \<Rightarrow> obj \<Rightarrow> obj result" where
  "onStartWalletSuccess c state =
     state_with state
       [Prop ''walletStartState'' (Inr (field (WALLET_STATUS c) ''READY'')),
        Prop ''startWalletAction'' (Inr JNull)]"

definition onStartWalletFailed :: "env \<Rightarrow> obj \<Rightarrow> obj result" where
  "onStartWalletFailed c state =
     state_with state [Prop ''walletStartState'' (Inr (field (WALLET_STATUS c) ''FAILED''))]"

definition onTokenInvalidateBalance :: "env \<Rightarrow> obj \<Rightarrow> obj \<Rightarrow> obj result" where
  "onTokenInvalidateBalance c state action =
     (let tokenId = field action ''tokenId'' in
      state_with state
        [Prop ''tokensBalance'' (object_literal
           [Spread (Inr (field state ''tokensBalance'')),
            Computed (to_key tokenId) (object_literal
              [Prop ''status'' (Inr (field (TOKEN_DOWNLOAD_STATUS c) ''INVALIDATED''))])])])"

definition onTokenInvalidateHistory :: "env \<Rightarrow> obj \<Rightarrow> obj \<Rightarrow> obj result" where
  "onTokenInvalidateHistory c state action =
     (let tokenId = field action ''tokenId'' in
      state_with state
        [Prop ''tokensHistory'' (object_literal
           [Spread (Inr (field state ''tokensHistory'')),
            Computed (to_key tokenId) (object_literal
              [Prop ''status'' (Inr (field (TOKEN_DOWNLOAD_STATUS c) ''INVALIDATED''))])])])"

definition onWalletBestBlockUpdate :: "env \<Rightarrow> obj \<Rightarrow> obj \<Rightarrow> obj result" where
  "onWalletBestBlockUpdate c state action =
     state_with state [Prop ''height'' (Inr (field action ''data''))]"

definition onSetNavigateTo :: "env \<Rightarrow> obj \<Rightarrow> obj \<Rightarrow> obj result" where
  "onSetNavigateTo c state action =
     (let route = field action ''route''; replace = field action ''replace'' in
      state_with state
        [Prop ''navigateTo'' (object_literal
           [Prop ''route'' (Inr route), Prop ''replace'' (Inr replace)])])"

definition onSetServerInfo :: "env \<Rightarrow> obj \<Rightarrow> obj \<Rightarrow> obj result" where
  "onSetServerInfo c state action =
     state_with state
       [Prop ''serverInfo'' (object_literal
          [Prop ''network'' (get_prop (field action ''payload'') ''network''),
           Prop ''version'' (get_prop (field action ''payload'') ''version'')])]"

definition onFeatureToggleInitialized :: "env \<Rightarrow> obj \<Rightarrow> obj result" where
  "onFeatureToggleInitialized c state =
     state_with state [Prop ''featureTogglesInitialized'' (Inr (JBool True))]"

definition onSetFeatureToggles :: "env \<Rightarrow> obj \<Rightarrow> obj \<Rightarrow> obj result" where
  "onSetFeatureToggles c state action =
     state_with state [Prop ''featureToggles'' (Inr (field action ''payload''))]"

text \<open>
  The loop of \<open>onUpdateTxHistory\<close> over \<^verbatim>\<open>tokenHistory.data.entries()\<close>: the first
  element with the transaction's id is replaced in the copy, and the loop ends there.
\<close>

fun onUpdateTxHistory_loop ::
  "env \<Rightarrow> jsval \<Rightarrow> jsval \<Rightarrow> jsval \<Rightarrow> (nat \<times> jsval) list \<Rightarrow> jsval list \<times> obj
     \<Rightarrow> (jsval list \<times> obj) result" where
  "onUpdateTxHistory_loop c tx tokenId balance [] newTokenHistoryData =
     Inr newTokenHistoryData"
| "onUpdateTxHistory_loop c tx tokenId balance ((index, histTx) # rest) newTokenHistoryData =
     andThen (get_prop histTx ''tx_id'') (\<lambda>l.
     andThen (get_prop tx ''tx_id'') (\<lambda>r.
     andThen (strict_eq l r) (\<lambda>same.
     if same then
       andThen (getTxHistoryFromWSTx c tx tokenId balance) (\<lambda>newEntry.
       array_set newTokenHistoryData (int index) newEntry)
     else onUpdateTxHistory_loop c tx tokenId balance rest newTokenHistoryData)))"

definition onUpdateTxHistory :: "env \<Rightarrow> obj \<Rightarrow> obj \<Rightarrow> obj result" where
  "onUpdateTxHistory c state action =
     andThen (get_prop (field action ''payload'') ''tx'') (\<lambda>tx.
     andThen (get_prop (field action ''payload'') ''tokenId'') (\<lambda>tokenId.
     andThen (get_prop (field action ''payload'') ''balance'') (\<lambda>balance.
     andThen (get_index (field state ''tokensHistory'') tokenId) (\<lambda>tokenHistory.
     if \<not> truthy tokenHistory then Inr state
     else
       andThen (get_prop tokenHistory ''data'') (\<lambda>data.
       andThen (spread_array data) (\<lambda>copied.
       andThen (method_entries data) (\<lambda>indexed.
       andThen (onUpdateTxHistory_loop c tx tokenId balance indexed (copied, []))
         (\<lambda>(elems, props).
       andThen (object_literal
                  [Spread (Inr tokenHistory), Prop ''data'' (Inr (JArr elems props))])
         (\<lambda>newTokenHistory.
       state_with state
         [Prop ''tokensHistory'' (object_literal
            [Spread (Inr (field state ''tokensHistory'')),
             Computed (to_key tokenId) (Inr newTokenHistory)])])))))))))"

definition onWalletStateChanged :: "env \<Rightarrow> obj \<Rightarrow> obj \<Rightarrow> obj result" where
  "onWalletStateChanged c state action =
     state_with state [Prop ''walletState'' (Inr (field action ''payload''))]"

definition onSetMiningServer :: "env \<Rightarrow> obj \<Rightarrow> obj \<Rightarrow> obj result" where
  "onSetMiningServer c state action =
     state_with state [Prop ''miningServer'' (Inr (field action ''payload''))]"

text \<open>
  lodash's \<^verbatim>\<open>findIndex(array, predicate)\<close> reads \<^verbatim>\<open>array.length\<close> and the elements below
  it; without a length there is nothing to find.
\<close>

fun lodash_findIndex :: "jsval \<Rightarrow> (jsval \<Rightarrow> bool result) \<Rightarrow> int result" where
  "lodash_findIndex (JArr elems props) cb = findIndex_from cb elems 0"
| "lodash_findIndex (JStr s) cb = (if s = [] then Inr (- 1) else Inl Unmodelled)"
| "lodash_findIndex (JObj kvs) cb =
     (if truthy (field kvs ''length'') then Inl Unmodelled else Inr (- 1))"
| "lodash_findIndex (JFun f) cb = Inl Unmodelled"
| "lodash_findIndex (JInherited n) cb = Inl Unmodelled"
| "lodash_findIndex v cb = Inr (- 1)"

text \<open>The callback in \<open>onSetNativeTokenData\<close>: \<^verbatim>\<open>(e) => e.uid === NATIVE_TOKEN_UID\<close>.\<close>

definition is_native :: "env \<Rightarrow> jsval \<Rightarrow> bool result" where
  "is_native c e =
     andThen (get_prop e ''uid'') (\<lambda>uid. strict_eq uid (JStr (NATIVE_TOKEN_UID c)))"

definition onSetNativeTokenData :: "env \<Rightarrow> obj \<Rightarrow> obj \<Rightarrow> obj result" where
  "onSetNativeTokenData c state action =
     (let payload = field action ''payload'' in
      andThen (spread_array (field state ''tokens'')) (\<lambda>copied.
      andThen (lodash_findIndex (field state ''tokens'') (is_native c)) (\<lambda>nativeTokenIndex.
      andThen (object_literal
                 [Spread (Inr payload), Prop ''uid'' (Inr (JStr (NATIVE_TOKEN_UID c)))])
        (\<lambda>native.
      andThen
        (if nativeTokenIndex = - 1
         then concat_spread (JArr [native] []) (field state ''tokens'')
         else andThen (array_set (copied, []) nativeTokenIndex native)
                (\<lambda>(elems, props). Inr (JArr elems props)))
        (\<lambda>tokens.
      state_with state
        [Prop ''nativeTokenData'' (Inr payload),
         Prop ''tokens'' (Inr tokens),
         Prop ''tokensCache'' (object_literal
           [Spread (Inr (field state ''tokensCache'')),
            Prop (NATIVE_TOKEN_UID c) (object_literal
              [Prop ''tokenUid'' (Inr (JStr (NATIVE_TOKEN_UID c))),
               Prop ''symbol'' (get_prop payload ''symbol''),
               Prop ''name'' (get_prop payload ''name''),
               Prop ''status'' (Inr (field (TOKEN_DOWNLOAD_STATUS c) ''READY''))])])])))))"

section \<open>The root reducer\<close>

text \<open>
  The cases of \<^verbatim>\<open>switch (action.type)\<close> in source order, each label with the result of
  its \<^verbatim>\<open>return\<close>. The case \<^verbatim>\<open>types.SET_UNLEASH_CLIENT\<close> calls \<^verbatim>\<open>onSetUnleashClient\<close>, which
  the module neither defines nor imports: evaluating that name raises a
  \<^verbatim>\<open>ReferenceError\<close>.
\<close>

type_synonym outcome = "effect list \<times> obj result"

definition pure :: "obj result \<Rightarrow> outcome" where
  "pure r = ([], r)"

text \<open>\<^verbatim>\<open>Object.assign({}, state, {k1: e1, ...})\<close>.\<close>

definition assign_state :: "obj \<Rightarrow> elem list \<Rightarrow> obj result" where
  "assign_state state es = andThen (object_literal es) (\<lambda>changes. assign [] [JObj state, changes])"

definition switch_cases :: "env \<Rightarrow> obj \<Rightarrow> obj \<Rightarrow> (string \<times> outcome) list" where
  "switch_cases c state action =
     [(''history_update'', pure (assign_state state
         [Prop ''allTokens'' (get_prop (field action ''payload'') ''allTokens''),
          Prop ''lastSharedIndex'' (get_prop (field action ''payload'') ''lastSharedIndex''),
          Prop ''lastSharedAddress'' (get_prop (field action ''payload'') ''lastSharedAddress''),
          Prop ''addressesFound'' (get_prop (field action ''payload'') ''addressesFound''),
          Prop ''transactionsFound'' (get_prop (field action ''payload'') ''transactionsFound'')])),
      (''shared_address'', pure (assign_state state
         [Prop ''lastSharedAddress'' (get_prop (field action ''payload'') ''lastSharedAddress''),
          Prop ''lastSharedIndex'' (get_prop (field action ''payload'') ''lastSharedIndex'')])),
      (''is_version_allowed_update'', pure (assign_state state
         [Prop ''isVersionAllowed'' (get_prop (field action ''payload'') ''allowed'')])),
      (''is_online_update'', pure (assign_state state
         [Prop ''isOnline'' (get_prop (field action ''payload'') ''isOnline'')])),
      (''network_update'', pure (assign_state state
         [Prop ''network'' (get_prop (field action ''payload'') ''network'')])),
      (''reload_data'', pure (assign [] [JObj state, field action ''payload''])),
      (''clean_data'', pure (onCleanData c state)),
      (''last_failed_request'', pure (assign_state state
         [Prop ''lastFailedRequest'' (Inr (field action ''payload''))])),
      (''select_token'', pure (assign_state state
         [Prop ''selectedToken'' (Inr (field action ''payload''))])),
      (''new_tokens'', pure (onNewTokens c state action)),
      (''loading_addresses_update'', pure (assign_state state
         [Prop ''loadingAddresses'' (Inr (field action ''payload''))])),
      (''update_loaded_data'', pure (onUpdateLoadedData c state action)),
      (''update_request_error_status_code'', pure (assign_state state
         [Prop ''requestErrorStatusCode'' (Inr (field action ''payload''))])),
      (''update_height'', pure (onUpdateHeight c state action)),
      (''load_wallet_success'', onLoadWalletSuccess c state action),
      (''update_tx'', pure (onUpdateTx c state action)),
      (''update_token_history'', pure (onUpdateTokenHistory c state action)),
      (''token_metadata_updated'', pure (tokenMetadataUpdated c state action)),
      (''metadata_loaded'', pure (assign_state state
         [Prop ''metadataLoaded'' (Inr (field action ''payload''))])),
      (''remove_token_metadata'', pure (removeTokenMetadata c state action)),
      (''partially_update_history_and_balance'',
         pure (partiallyUpdateHistoryAndBalance c state action)),
      (''set_use_wallet_service'', pure (onSetUseWalletService c state action)),
      (''lock_wallet_for_result'', pure (onLockWalletForResult c state action)),
      (''resolve_lock_wallet_promise'', onResolveLockWalletPromise c state action),
      (''reset_selected_token_if_needed'', pure (resetSelectedTokenIfNeeded c state action)),
      (''set_ledger_was_closed'', pure (assign_state state
         [Prop ''ledgerWasClosed'' (Inr (field action ''payload''))])),
      (types c ''SET_SERVER_INFO'', pure (onSetServerInfo c state action)),
      (types c ''TOKEN_FETCH_BALANCE_REQUESTED'', pure (onTokenFetchBalanceRequested c state action)),
      (types c ''TOKEN_FETCH_BALANCE_SUCCESS'', pure (onTokenFetchBalanceSuccess c state action)),
      (types c ''TOKEN_FETCH_BALANCE_FAILED'', pure (onTokenFetchBalanceFailed c state action)),
      (types c ''TOKEN_FETCH_HISTORY_REQUESTED'', pure (onTokenFetchHistoryRequested c state action)),
      (types c ''TOKEN_FETCH_HISTORY_SUCCESS'', pure (onTokenFetchHistorySuccess c state action)),
      (types c ''TOKEN_FETCH_HISTORY_FAILED'', pure (onTokenFetchHistoryFailed c state action)),
      (types c ''SET_ENABLE_ATOMIC_SWAP'', pure (onSetUseAtomicSwap c state action)),
      (types c ''PROPOSAL_LIST_UPDATED'', pure (onProposalListUpdated c state action)),
      (types c ''PROPOSAL_FETCH_REQUESTED'', pure (onProposalFetchRequested c state action)),
      (types c ''PROPOSAL_FETCH_SUCCESS'', pure (onProposalFetchSuccess c state action)),
      (types c ''PROPOSAL_FETCH_FAILED'', pure (onProposalFetchFailed c state action)),
      (types c ''PROPOSAL_UPDATED'', pure (onProposalUpdate c state action)),
      (types c ''PROPOSAL_TOKEN_FETCH_REQUESTED'', pure (onProposalTokenFetchRequested c state action)),
      (types c ''PROPOSAL_TOKEN_FETCH_SUCCESS'', pure (onProposalTokenFetchSuccess c state action)),
      (types c ''PROPOSAL_TOKEN_FETCH_FAILED'', pure (onProposalTokenFetchFailed c state action)),
      (types c ''PROPOSAL_REMOVED'', pure (onProposalRemoved c state action)),
      (types c ''PROPOSAL_IMPORTED'', pure (onProposalImported c state action)),
      (types c ''TOKEN_INVALIDATE_HISTORY'', pure (onTokenInvalidateHistory c state action)),
      (types c ''TOKEN_INVALIDATE_BALANCE'', pure (onTokenInvalidateBalance c state action)),
      (types c ''ON_START_WALLET_LOCK'', pure (onStartWalletLock c state)),
      (types c ''START_WALLET_REQUESTED'', pure (onStartWalletRequested c state action)),
      (types c ''START_WALLET_SUCCESS'', pure (onStartWalletSuccess c state)),
      (types c ''START_WALLET_FAILED'', pure (onStartWalletFailed c state)),
      (types c ''WALLET_BEST_BLOCK_UPDATE'', pure (onWalletBestBlockUpdate c state action)),
      (types c ''SET_NAVIGATE_TO'', pure (onSetNavigateTo c state action)),
      (types c ''SET_UNLEASH_CLIENT'', ([], Inl ReferenceError)),
      (types c ''SET_FEATURE_TOGGLES'', pure (onSetFeatureToggles c state action)),
      (types c ''FEATURE_TOGGLE_INITIALIZED'', pure (onFeatureToggleInitialized c state)),
      (types c ''UPDATE_TX_HISTORY'', pure (onUpdateTxHistory c state action)),
      (types c ''WALLET_CHANGE_STATE'', pure (onWalletStateChanged c state action)),
      (types c ''SET_MINING_SERVER'', pure (onSetMiningServer c state action)),
      (types c ''SET_NATIVE_TOKEN_DATA'', pure (onSetNativeTokenData c state action))]"

text \<open>
  \<^verbatim>\<open>rootReducer(state = initialState, action)\<close>: an \<^verbatim>\<open>undefined\<close> state (\<open>None\<close>) is the
  initial state; the first case whose label is strictly equal to \<^verbatim>\<open>action.type\<close> is
  taken, and \<^verbatim>\<open>default\<close> returns the state.
\<close>

definition rootReducer :: "env \<Rightarrow> obj option \<Rightarrow> obj \<Rightarrow> outcome" where
  "rootReducer c given action =
     (let state = (case given of None \<Rightarrow> initialState c | Some s \<Rightarrow> s) in
      case field action ''type'' of
        JStr t \<Rightarrow>
          (case map_of (switch_cases c state action) t of
             Some r \<Rightarrow> r
           | None \<Rightarrow> ([], Inr state))
      | _ \<Rightarrow> ([], Inr state))"

text \<open>The labels of the switch: the recognized transition types.\<close>

definition recognized :: "env \<Rightarrow> string list" where
  "recognized c =
     [''history_update'', ''shared_address'', ''is_version_allowed_update'',
      ''is_online_update'', ''network_update'', ''reload_data'', ''clean_data'',
      ''last_failed_request'', ''select_token'', ''new_tokens'',
      ''loading_addresses_update'', ''update_loaded_data'',
      ''update_request_error_status_code'', ''update_height'', ''load_wallet_success'',
      ''update_tx'', ''update_token_history'', ''token_metadata_updated'',
      ''metadata_loaded'', ''remove_token_metadata'',
      ''partially_update_history_and_balance'', ''set_use_wallet_service'',
      ''lock_wallet_for_result'', ''resolve_lock_wallet_promise'',
      ''reset_selected_token_if_needed'', ''set_ledger_was_closed'']
     @ map (types c)
       [''SET_SERVER_INFO'', ''TOKEN_FETCH_BALANCE_REQUESTED'', ''TOKEN_FETCH_BALANCE_SUCCESS'',
        ''TOKEN_FETCH_BALANCE_FAILED'', ''TOKEN_FETCH_HISTORY_REQUESTED'',
        ''TOKEN_FETCH_HISTORY_SUCCESS'', ''TOKEN_FETCH_HISTORY_FAILED'',
        ''SET_ENABLE_ATOMIC_SWAP'', ''PROPOSAL_LIST_UPDATED'', ''PROPOSAL_FETCH_REQUESTED'',
        ''PROPOSAL_FETCH_SUCCESS'', ''PROPOSAL_FETCH_FAILED'', ''PROPOSAL_UPDATED'',
        ''PROPOSAL_TOKEN_FETCH_REQUESTED'', ''PROPOSAL_TOKEN_FETCH_SUCCESS'',
        ''PROPOSAL_TOKEN_FETCH_FAILED'', ''PROPOSAL_REMOVED'', ''PROPOSAL_IMPORTED'',
        ''TOKEN_INVALIDATE_HISTORY'', ''TOKEN_INVALIDATE_BALANCE'', ''ON_START_WALLET_LOCK'',
        ''START_WALLET_REQUESTED'', ''START_WALLET_SUCCESS'', ''START_WALLET_FAILED'',
        ''WALLET_BEST_BLOCK_UPDATE'', ''SET_NAVIGATE_TO'', ''SET_UNLEASH_CLIENT'',
        ''SET_FEATURE_TOGGLES'', ''FEATURE_TOGGLE_INITIALIZED'', ''UPDATE_TX_HISTORY'',
        ''WALLET_CHANGE_STATE'', ''SET_MINING_SERVER'', ''SET_NATIVE_TOKEN_DATA'']"

section \<open>Concrete stores and transitions\<close>

text \<open>
  An environment in which the action type constants are their own names, the native
  token is \<^verbatim>\<open>00\<close> and the statuses are lower-case strings, and the stores and
  transitions the properties below are evaluated on.
\<close>

definition example_env :: env where
  "example_env =
     \<lparr> types = (\<lambda>name. name),
       NATIVE_TOKEN_UID = ''00'',
       FEATURE_TOGGLE_DEFAULTS = [],
       VERSION = JStr ''0.27.0'',
       TOKEN_DOWNLOAD_STATUS =
         [(''READY'', JStr ''ready''), (''FAILED'', JStr ''failed''),
          (''LOADING'', JStr ''loading''), (''INVALIDATED'', JStr ''invalidated'')],
       WALLET_STATUS =
         [(''READY'', JStr ''ready''), (''FAILED'', JStr ''failed''),
          (''LOADING'', JStr ''loading'')],
       PROPOSAL_DOWNLOAD_STATUS =
         [(''READY'', JStr ''ready''), (''FAILED'', JStr ''failed''),
          (''LOADING'', JStr ''loading''), (''INVALIDATED'', JStr ''invalidated'')],
       isAllAuthority = (\<lambda>tx. Inr (JBool False)),
       now = 1700000000000 \<rparr>"

text \<open>A history entry of token \<^verbatim>\<open>00\<close> and a transaction as the websocket delivers it.\<close>

definition history_entry :: "string \<Rightarrow> bool \<Rightarrow> jsval" where
  "history_entry txid voided =
     JObj [(''tx_id'', JStr txid), (''timestamp'', JNum 10), (''tokenUid'', JStr ''00''),
           (''balance'', JNum 5), (''is_voided'', JBool voided), (''version'', JNum 1),
           (''isAllAuthority'', JBool False)]"

definition ws_tx :: "string \<Rightarrow> bool \<Rightarrow> jsval" where
  "ws_tx txid voided =
     JObj [(''tx_id'', JStr txid), (''timestamp'', JNum 10), (''is_voided'', JBool voided),
           (''version'', JNum 1), (''inputs'', JArr [] []), (''outputs'', JArr [] [])]"

definition update_tx_action :: "string \<Rightarrow> bool \<Rightarrow> obj" where
  "update_tx_action txid voided =
     [(''type'', JStr ''update_tx''),
      (''payload'', JObj [(''tx'', ws_tx txid voided),
                          (''updatedBalanceMap'', JObj []),
                          (''balances'', JObj [(''00'', JNum 5)])])]"

text \<open>A store whose history slot of token \<^verbatim>\<open>00\<close> is the given value.\<close>

definition store_with_history :: "jsval \<Rightarrow> obj" where
  "store_with_history slot =
     AList.update ''tokensHistory'' (JObj [(''00'', slot)]) (initialState example_env)"

text \<open>The history record of the type \<^verbatim>\<open>TokenHistory\<close>, as the fetch handlers store it.\<close>

definition history_record :: "jsval list \<Rightarrow> jsval" where
  "history_record txs =
     JObj [(''status'', JStr ''ready''), (''updatedAt'', JNum 1699999999999),
           (''data'', JArr txs []), (''oldStatus'', JStr ''loading'')]"

text \<open>A store with metadata and a zero balance for the token \<^verbatim>\<open>01\<close>.\<close>

definition zero_balance_record :: jsval where
  "zero_balance_record =
     JObj [(''status'', JStr ''ready''), (''updatedAt'', JNum 1699999999999),
           (''data'', JObj [(''available'', JNum 0), (''locked'', JNum 0)]),
           (''oldStatus'', JStr ''loading'')]"

definition store_with_zero_balance :: obj where
  "store_with_zero_balance =
     AList.update ''tokenMetadata'' (JObj [(''01'', JObj [(''id'', JStr ''01'')])])
       (AList.update ''tokensBalance'' (JObj [(''01'', zero_balance_record)])
          (initialState example_env))"

definition remove_metadata_action :: obj where
  "remove_metadata_action = [(''type'', JStr ''remove_token_metadata''), (''payload'', JStr ''01'')]"

text \<open>A store whose \<^verbatim>\<open>lockWalletPromise\<close> slot holds the given value.\<close>

definition store_with_resolver :: "jsval \<Rightarrow> obj" where
  "store_with_resolver slot = AList.update ''lockWalletPromise'' slot (initialState example_env)"

definition resolve_action :: obj where
  "resolve_action =
     [(''type'', JStr ''resolve_lock_wallet_promise''), (''payload'', JStr ''123456'')]"

section \<open>Reading the store\<close>

text \<open>
  \<^verbatim>\<open>state[collection][key]\<close>, the cached entity of a key, and \<^verbatim>\<open>state[collection][key][name]\<close>,
  one of its fields.
\<close>

definition entity :: "string \<Rightarrow> string \<Rightarrow> obj \<Rightarrow> jsval result" where
  "entity collection key state = get_prop (field state collection) key"

definition entity_prop :: "string \<Rightarrow> string \<Rightarrow> string \<Rightarrow> obj \<Rightarrow> jsval result" where
  "entity_prop collection key name state =
     andThen (entity collection key state) (\<lambda>e. get_prop e name)"

text \<open>An \<^verbatim>\<open>update_height\<close> transition, and the balance record it carries.\<close>

definition native_balance :: jsval where
  "native_balance =
     JObj [(''status'', JStr ''ready''), (''updatedAt'', JNum 1699999999999),
           (''data'', JObj [(''available'', JNum 640), (''locked'', JNum 0)])]"

definition update_height_action :: "int \<Rightarrow> obj" where
  "update_height_action height =
     [(''type'', JStr ''update_height''),
      (''payload'', JObj [(''height'', JNum height), (''htrUpdatedBalance'', native_balance)])]"

text \<open>A store in which the token \<^verbatim>\<open>01\<close> is selected and has the given balance entry.\<close>

definition store_selected :: "jsval \<Rightarrow> obj" where
  "store_selected balance =
     AList.update ''selectedToken'' (JStr ''01'')
       (AList.update ''tokensBalance'' (JObj [(''01'', balance)]) (initialState example_env))"

definition plain_balance :: "int \<Rightarrow> int \<Rightarrow> jsval" where
  "plain_balance available locked =
     JObj [(''available'', JNum available), (''locked'', JNum locked)]"

text \<open>
  The transitions of a newly registered token \<^verbatim>\<open>01\<close> with nothing in it: the token is
  selected, its balance arrives, and the reselect rule runs.
\<close>

definition store_selecting :: obj where
  "store_selecting = AList.update ''selectedToken'' (JStr ''01'') (initialState example_env)"

definition zero_balance_action :: obj where
  "zero_balance_action =
     [(''type'', JStr ''TOKEN_FETCH_BALANCE_SUCCESS''), (''tokenId'', JStr ''01''),
      (''data'', JObj [(''available'', JNum 0), (''locked'', JNum 0)])]"

definition reset_action :: obj where
  "reset_action = [(''type'', JStr ''reset_selected_token_if_needed'')]"

text \<open>An \<^verbatim>\<open>UPDATE_TX_HISTORY\<close> transition for a transaction and a token.\<close>

definition update_tx_history_action :: "string \<Rightarrow> string \<Rightarrow> obj" where
  "update_tx_history_action txid token =
     [(''type'', JStr ''UPDATE_TX_HISTORY''),
      (''payload'', JObj [(''tx'', ws_tx txid True), (''tokenId'', JStr token),
                          (''balance'', JNum 5)])]"

text \<open>A store in which one collection holds one entity, and a transition naming a key.\<close>

definition store_with_entity :: "string \<Rightarrow> string \<Rightarrow> jsval \<Rightarrow> obj" where
  "store_with_entity collection key e =
     AList.update collection (JObj [(key, e)]) (initialState example_env)"

definition keyed_action :: "string \<Rightarrow> string \<Rightarrow> string \<Rightarrow> obj" where
  "keyed_action type idname key =
     [(''type'', JStr type), (idname, JStr key),
      (''data'', JObj [(''available'', JNum 640), (''locked'', JNum 0)])]"

section \<open>The transitions that record the previous status\<close>

text \<open>
  The handlers that write \<^verbatim>\<open>oldStatus: oldState.status\<close> into the entity they store, each
  with the field of the action that names the key, the collection of the store it
  works on and the status it writes; and the status of an entity as it was before:
  \<^verbatim>\<open>undefined\<close> for an absent one.
\<close>

datatype recording =
    BalanceRequested | BalanceSuccess | BalanceFailed
  | HistoryRequested | HistorySuccess | HistoryFailed
  | ProposalRequested | ProposalTokenRequested

fun handler_of :: "env \<Rightarrow> recording \<Rightarrow> obj \<Rightarrow> obj \<Rightarrow> obj result" where
  "handler_of c BalanceRequested = onTokenFetchBalanceRequested c"
| "handler_of c BalanceSuccess = onTokenFetchBalanceSuccess c"
| "handler_of c BalanceFailed = onTokenFetchBalanceFailed c"
| "handler_of c HistoryRequested = onTokenFetchHistoryRequested c"
| "handler_of c HistorySuccess = onTokenFetchHistorySuccess c"
| "handler_of c HistoryFailed = onTokenFetchHistoryFailed c"
| "handler_of c ProposalRequested = onProposalFetchRequested c"
| "handler_of c ProposalTokenRequested = onProposalTokenFetchRequested c"

fun id_field :: "recording \<Rightarrow> string" where
  "id_field ProposalRequested = ''proposalId''"
| "id_field ProposalTokenRequested = ''tokenUid''"
| "id_field t = ''tokenId''"

fun collection :: "recording \<Rightarrow> string" where
  "collection BalanceRequested = ''tokensBalance''"
| "collection BalanceSuccess = ''tokensBalance''"
| "collection BalanceFailed = ''tokensBalance''"
| "collection HistoryRequested = ''tokensHistory''"
| "collection HistorySuccess = ''tokensHistory''"
| "collection HistoryFailed = ''tokensHistory''"
| "collection ProposalRequested = ''proposals''"
| "collection ProposalTokenRequested = ''tokensCache''"

fun new_status :: "env \<Rightarrow> recording \<Rightarrow> jsval" where
  "new_status c BalanceRequested = field (TOKEN_DOWNLOAD_STATUS c) ''LOADING''"
| "new_status c BalanceSuccess = field (TOKEN_DOWNLOAD_STATUS c) ''READY''"
| "new_status c BalanceFailed = field (TOKEN_DOWNLOAD_STATUS c) ''FAILED''"
| "new_status c HistoryRequested = field (TOKEN_DOWNLOAD_STATUS c) ''LOADING''"
| "new_status c HistorySuccess = field (TOKEN_DOWNLOAD_STATUS c) ''READY''"
| "new_status c HistoryFailed = field (TOKEN_DOWNLOAD_STATUS c) ''FAILED''"
| "new_status c ProposalRequested = field (PROPOSAL_DOWNLOAD_STATUS c) ''LOADING''"
| "new_status c ProposalTokenRequested = field (TOKEN_DOWNLOAD_STATUS c) ''LOADING''"

fun status_of :: "jsval \<Rightarrow> jsval" where
  "status_of (JObj e) = field e ''status''"
| "status_of v = JUndefined"

section \<open>Basic facts\<close>

lemma andThen_Inr [simp]: "andThen (Inr x) f = f x"
  by (simp add: andThen_def)

lemma andThen_Inl [simp]: "andThen (Inl e) f = Inl e"
  by (simp add: andThen_def)

lemma andThen_eq_Inr: "andThen m f = Inr y \<longleftrightarrow> (\<exists>x. m = Inr x \<and> f x = Inr y)"
  by (cases m) simp_all

text \<open>Whether a key written out is the name of an inherited member is decided by evaluation.\<close>

declare inherited_def [simp] inherited_names_def [simp]

lemma get_prop_own: "field kvs k = v \<Longrightarrow> v \<noteq> JUndefined \<Longrightarrow> get_prop (JObj kvs) k = Inr v"
  by (auto simp: field_def map_of_eq_None_iff [symmetric] split: option.splits)

lemma field_present: "field kvs k \<noteq> JUndefined \<Longrightarrow> k \<in> fst ` set kvs"
  by (cases "map_of kvs k") (auto simp: field_def dest!: map_of_SomeD intro: rev_image_eqI)

lemma field_update [simp]:
  "field (AList.update k v al) k' = (if k' = k then v else field al k')"
  by (simp add: field_def update_conv')

lemma switch_labels: "map fst (switch_cases c state action) = recognized c"
  by (simp add: switch_cases_def recognized_def)

lemma update_fresh: "k \<notin> fst ` set al \<Longrightarrow> AList.update k v al = al @ [(k, v)]"
  by (induction al) auto

text \<open>Copying an object whose keys are distinct, as those of a JavaScript object are.\<close>

lemma set_fields_append:
  "distinct (map fst (acc @ kvs)) \<Longrightarrow> set_fields acc kvs = acc @ kvs"
proof (induction kvs arbitrary: acc)
  case Nil
  then show ?case by (simp add: set_fields_def)
next
  case (Cons p kvs)
  obtain k v where p: "p = (k, v)" by (cases p)
  from Cons.prems p have fresh: "k \<notin> fst ` set acc" by auto
  from Cons.prems p have "distinct (map fst ((acc @ [(k, v)]) @ kvs))" by auto
  then have "set_fields (acc @ [(k, v)]) kvs = (acc @ [(k, v)]) @ kvs" by (rule Cons.IH)
  with fresh p show ?case by (simp add: set_fields_def update_fresh)
qed

lemma set_fields_Nil: "distinct (map fst kvs) \<Longrightarrow> set_fields [] kvs = kvs"
  using set_fields_append [of "[]" kvs] by simp

lemma spread_JObj [simp]: "spread (JObj kvs) = Inr kvs"
  by (simp add: spread_def nullish_def)


lemma distinct_initialState: "distinct (map fst (initialState c))"
  by (simp add: initialState_def)

lemma sum_is_zero_numbers [simp]: "sum_is_zero (JNum a) (JNum b) = (a + b = 0)"
  by (simp add: sum_is_zero_def)

lemma field_Nil: "field [] k = JUndefined"
  by (simp add: field_def)

lemma field_Cons: "field ((k', v) # kvs) k = (if k = k' then v else field kvs k)"
  by (simp add: field_def)

lemmas js_ops = field_def absent_field_def data_fields_def has_property_def assign_prop_def
  nullish_def spread_def entries_def set_fields_def strict_eq_def
  object_literal_def state_with_def get_index_def concat_spread_def array_set_def
  sum_is_zero_def dec_int_def digit_char_def plain_path_def lodash_get_def digits_def
  entity_def entity_prop_def

lemmas examples = example_env_def history_entry_def ws_tx_def update_tx_action_def
  store_with_history_def history_record_def zero_balance_record_def
  store_with_zero_balance_def remove_metadata_action_def initialState_def
  store_with_resolver_def resolve_action_def
  native_balance_def update_height_action_def store_selected_def plain_balance_def
  update_tx_history_action_def store_with_entity_def keyed_action_def
  store_selecting_def zero_balance_action_def reset_action_def

lemma dispatch_update_tx:
  "field action ''type'' = JStr ''update_tx'' \<Longrightarrow>
   rootReducer c (Some state) action = pure (onUpdateTx c state action)"
  by (simp add: rootReducer_def switch_cases_def)

lemma dispatch_resolve:
  "field action ''type'' = JStr ''resolve_lock_wallet_promise'' \<Longrightarrow>
   rootReducer c (Some state) action = onResolveLockWalletPromise c state action"
  by (simp add: rootReducer_def switch_cases_def)

section \<open>Unknown transitions\<close>

text \<open>
  C2. For every state and every transition whose type is not one of the labels of the
  switch, the reducer returns the input state itself, with no effect and no error; when
  the store is still undefined, it returns the initial state.
\<close>

theorem rootReducer_unrecognized:
  assumes "\<forall>t \<in> set (recognized c). field action ''type'' \<noteq> JStr t"
  shows "rootReducer c (Some state) action = ([], Inr state)
         \<and> rootReducer c None action = ([], Inr (initialState c))"
proof (cases "field action ''type''")
  case (JStr t)
  have "t \<notin> set (map fst (switch_cases c state action))"
    and "t \<notin> set (map fst (switch_cases c (initialState c) action))"
    using assms JStr by (auto simp: switch_labels)
  then have "map_of (switch_cases c state action) t = None"
    and "map_of (switch_cases c (initialState c) action) t = None"
    by (simp_all add: map_of_eq_None_iff)
  with JStr show ?thesis by (simp add: rootReducer_def)
qed (simp_all add: rootReducer_def)

theorem rootReducer_unrecognized_witness:
  "''wallet_reloaded'' \<notin> set (recognized example_env)
   \<and> rootReducer example_env (Some store_with_zero_balance)
        [(''type'', JStr ''wallet_reloaded''), (''payload'', JNum 1)]
      = ([], Inr store_with_zero_balance)
   \<and> rootReducer example_env None [(''type'', JStr ''wallet_reloaded''), (''payload'', JNum 1)]
      = ([], Inr (initialState example_env))"
proof -
  have fresh: "''wallet_reloaded'' \<notin> set (recognized example_env)"
    by (simp add: recognized_def example_env_def)
  then have h: "\<forall>t \<in> set (recognized example_env).
      field [(''type'', JStr ''wallet_reloaded''), (''payload'', JNum 1)] ''type'' \<noteq> JStr t"
    by (auto simp: field_def)
  from rootReducer_unrecognized [OF h] fresh show ?thesis by blast
qed

section \<open>Transactions in a token's history\<close>

lemma findIndex_from_found:
  "findIndex_from cb xs n = Inr j \<Longrightarrow> 0 \<le> j \<Longrightarrow>
   int n \<le> j \<and> nat j - n < length xs \<and> cb (xs ! (nat j - n)) = Inr True"
proof (induction xs arbitrary: n)
  case Nil
  then show ?case by simp
next
  case (Cons x xs)
  from Cons.prems(1) obtain found where found: "cb x = Inr found"
    and rest: "(if found then Inr (int n) else findIndex_from cb xs (Suc n)) = Inr j"
    by (auto simp: andThen_eq_Inr)
  show ?case
  proof (cases found)
    case True
    with found rest show ?thesis by auto
  next
    case False
    with rest have "findIndex_from cb xs (Suc n) = Inr j" by simp
    from Cons.IH [OF this Cons.prems(2)]
    have "int (Suc n) \<le> j" "nat j - Suc n < length xs" "cb (xs ! (nat j - Suc n)) = Inr True"
      by auto
    moreover from this have "nat j - n = Suc (nat j - Suc n)" by linarith
    ultimately show ?thesis by auto
  qed
qed

lemma map_of_set_fields_distinct:
  "distinct (map fst kvs) \<Longrightarrow>
   map_of (set_fields target kvs) k = (if k \<in> fst ` set kvs then map_of kvs k else map_of target k)"
  unfolding set_fields_def
proof (induction kvs arbitrary: target)
  case Nil
  then show ?case by simp
next
  case (Cons p kvs)
  obtain k' v' where p: "p = (k', v')" by (cases p)
  with Cons show ?case
    by (auto simp: update_conv' image_iff)
qed

lemma field_set_fields_distinct:
  "distinct (map fst kvs) \<Longrightarrow>
   field (set_fields target kvs) k = (if k \<in> fst ` set kvs then field kvs k else field target k)"
  by (simp add: field_def map_of_set_fields_distinct)

lemma onUpdateTx_step_eq:
  "uid \<noteq> ''__proto__'' \<Longrightarrow>
   onUpdateTx_step c state tx (uid, b) acc = Inr acc' \<longleftrightarrow>
   (\<exists>v. onUpdateTx_newHistory c state tx uid b = Inr v \<and> acc' = AList.update uid v acc)"
  by (auto simp: onUpdateTx_step_def andThen_eq_Inr assign_prop_def)

lemma for_each_steps:
  assumes "for_each (onUpdateTx_step c state tx) bs acc = Inr m"
    and "distinct (map fst acc)"
    and "''__proto__'' \<notin> fst ` set bs"
  shows "distinct (map fst m)
       \<and> (\<forall>k. k \<notin> fst ` set bs \<longrightarrow> map_of m k = map_of acc k)
       \<and> (\<forall>k b. distinct (map fst bs) \<and> (k, b) \<in> set bs \<longrightarrow>
             (\<exists>v. onUpdateTx_newHistory c state tx k b = Inr v \<and> map_of m k = Some v))"
  using assms
proof (induction bs arbitrary: acc)
  case Nil
  then show ?case by simp
next
  case (Cons p bs)
  obtain uid b where p: "p = (uid, b)" by (cases p)
  with Cons.prems(3) have uid: "uid \<noteq> ''__proto__''"
    and others: "''__proto__'' \<notin> fst ` set bs"
    by auto
  from Cons.prems(1) p obtain v where
    v: "onUpdateTx_newHistory c state tx uid b = Inr v"
    and rest: "for_each (onUpdateTx_step c state tx) bs (AList.update uid v acc) = Inr m"
    by (auto simp: andThen_eq_Inr onUpdateTx_step_eq [OF uid])
  from Cons.prems(2) have d: "distinct (map fst (AList.update uid v acc))"
    by (simp add: distinct_update)
  note ih = Cons.IH [OF rest d others]
  have "\<forall>k. k \<notin> fst ` set (p # bs) \<longrightarrow> map_of m k = map_of acc k"
    using ih p by (auto simp: update_conv')
  moreover have "\<forall>k b'. distinct (map fst (p # bs)) \<and> (k, b') \<in> set (p # bs) \<longrightarrow>
      (\<exists>v. onUpdateTx_newHistory c state tx k b' = Inr v \<and> map_of m k = Some v)"
  proof (intro allI impI)
    fix k b'
    assume a: "distinct (map fst (p # bs)) \<and> (k, b') \<in> set (p # bs)"
    show "\<exists>v. onUpdateTx_newHistory c state tx k b' = Inr v \<and> map_of m k = Some v"
    proof (cases "(k, b') = (uid, b)")
      case True
      from a p have "uid \<notin> fst ` set bs" by auto
      with ih have "map_of m uid = map_of (AList.update uid v acc) uid" by blast
      then have "map_of m uid = Some v" by (simp add: update_conv')
      with v True show ?thesis by simp
    next
      case False
      with a p have "(k, b') \<in> set bs" "distinct (map fst bs)" by auto
      with ih show ?thesis by blast
    qed
  qed
  ultimately show ?case using ih by blast
qed

lemma findIndex_from_missing:
  "findIndex_from cb xs n = Inr j \<Longrightarrow> j < 0 \<Longrightarrow> j = - 1"
  by (induction xs arbitrary: n) (auto simp: andThen_eq_Inr split: if_splits)

text \<open>
  For a history slot that is an array and a token of \<^verbatim>\<open>balances\<close>: when \<^verbatim>\<open>findIndex\<close>
  finds the transaction, the new history is the old one with that element replaced;
  when it returns \<^verbatim>\<open>-1\<close>, the new history has the old elements and the new entry as
  its property \<^verbatim>\<open>"-1"\<close>.
\<close>

lemma onUpdateTx_on_array:
  assumes payload: "field action ''payload'' = JObj p"
    and balances: "field p ''balances'' = JObj bs" "distinct (map fst bs)" "(uid, b) \<in> set bs"
      "''__proto__'' \<notin> fst ` set bs"
    and history: "field state ''tokensHistory'' = JObj hs" "field hs uid = JArr elems props"
    and found: "findIndex_from (same_tx (field p ''tx'')) elems 0 = Inr j"
    and result: "onUpdateTx c state action = Inr s'"
  shows "\<exists>e. getTxHistoryFromWSTx c (field p ''tx'') (JStr uid) b = Inr e
           \<and> (0 \<le> j \<longrightarrow> nat j < length elems
                \<and> entity ''tokensHistory'' uid s' = Inr (JArr (elems[nat j := e]) []))
           \<and> (j < 0 \<longrightarrow>
                entity ''tokensHistory'' uid s' = Inr (JArr elems [(''-1'', e)]))"
proof -
  from result payload balances(1) history(1) obtain m where
    loop: "for_each (onUpdateTx_step c state (field p ''tx'')) bs [] = Inr m"
    and s': "field s' ''tokensHistory'' = JObj (set_fields (set_fields [] hs) m)"
    by (auto simp: onUpdateTx_def andThen_eq_Inr entries_def nullish_def set_fields_def)
  have "distinct (map fst ([] :: obj))" by simp
  from for_each_steps [OF loop this balances(4)]
  have dm: "distinct (map fst m)"
    and every: "\<forall>k b. distinct (map fst bs) \<and> (k, b) \<in> set bs \<longrightarrow>
       (\<exists>v. onUpdateTx_newHistory c state (field p ''tx'') k b = Inr v \<and> map_of m k = Some v)"
    by blast+
  from every balances(2,3) obtain v where
    v: "onUpdateTx_newHistory c state (field p ''tx'') uid b = Inr v"
    and stored: "map_of m uid = Some v"
    by blast
  from history(2) have own: "uid \<in> fst ` set hs"
    by (intro field_present) simp
  from stored have "uid \<in> fst ` set m"
    by (metis domI dom_map_of_conv_image_fst)
  with dm stored have "field (set_fields (set_fields [] hs) m) uid = v"
    by (simp add: field_set_fields_distinct) (simp add: field_def)
  moreover from v history own have "v \<noteq> JUndefined"
    by (auto simp: onUpdateTx_newHistory_def andThen_eq_Inr)
  ultimately have "get_prop (JObj (set_fields (set_fields [] hs) m)) uid = Inr v"
    by (rule get_prop_own)
  with s' have entity: "entity ''tokensHistory'' uid s' = Inr v"
    by (simp only: entity_def)
  from v history own found obtain e where
    e: "getTxHistoryFromWSTx c (field p ''tx'') (JStr uid) b = Inr e"
    and set: "array_set (elems, []) j e = Inr (case v of JArr xs ps \<Rightarrow> (xs, ps) | _ \<Rightarrow> ([], []))"
    by (auto simp: onUpdateTx_newHistory_def andThen_eq_Inr)
  from v history own found have arr: "\<exists>xs ps. v = JArr xs ps"
    by (auto simp: onUpdateTx_newHistory_def andThen_eq_Inr)
  have hit: "nat j < length elems \<and> v = JArr (elems[nat j := e]) []" if "0 \<le> j"
  proof -
    from findIndex_from_found [OF found that] have j: "nat j < length elems" by simp
    with that have "j < int (length elems)" by linarith
    with that set arr j show ?thesis by (auto simp: array_set_def)
  qed
  have miss: "v = JArr elems [(''-1'', e)]" if "j < 0"
  proof -
    from findIndex_from_missing [OF found that] have "j = - 1" .
    with set arr show ?thesis
      by (auto simp: array_set_def dec_int_def dec_nat.simps digit_char_def)
  qed
  from e entity hit miss show ?thesis by blast
qed

text \<open>
  C1. The two examples of the claim, for a history slot that is an array. The history
  \<^verbatim>\<open>[A(tx_id=1), B(tx_id=2)]\<close> of token \<^verbatim>\<open>00\<close> and an \<^verbatim>\<open>update_tx\<close> for the transaction 2,
  now voided, give \<^verbatim>\<open>[A, B']\<close>: the entry is replaced in place. The history
  \<^verbatim>\<open>[A(tx_id=1)]\<close> and an \<^verbatim>\<open>update_tx\<close> for the transaction 3, which the history does not
  hold, give the same one element: \<^verbatim>\<open>findIndex\<close> returns \<^verbatim>\<open>-1\<close>, the handler writes the
  new entry under the property \<^verbatim>\<open>"-1"\<close> of the copied array, and nothing is appended.
\<close>

theorem onUpdateTx_hit_and_miss:
  "andThen (onUpdateTx example_env
              (store_with_history (JArr [history_entry ''1'' False, history_entry ''2'' False] []))
              (update_tx_action ''2'' True))
     (entity ''tokensHistory'' ''00'')
   = Inr (JArr [history_entry ''1'' False, history_entry ''2'' True] [])
   \<and> andThen (onUpdateTx example_env (store_with_history (JArr [history_entry ''1'' False] []))
              (update_tx_action ''3'' False))
     (entity ''tokensHistory'' ''00'')
   = Inr (JArr [history_entry ''1'' False] [(''-1'', history_entry ''3'' False)])"
  by (simp add: onUpdateTx_def onUpdateTx_step_def onUpdateTx_newHistory_def
      getTxHistoryFromWSTx_def same_tx_def
      js_ops examples dec_nat.simps)

text \<open>
  C5. A store whose history of token \<^verbatim>\<open>00\<close> is a record \<^verbatim>\<open>{status, updatedAt, data,
  oldStatus}\<close>, as the type \<^verbatim>\<open>TokenHistory\<close> documents and the fetch handlers store it,
  and an \<^verbatim>\<open>update_tx\<close> with \<^verbatim>\<open>tx\<close>, \<^verbatim>\<open>updatedBalanceMap\<close> and \<^verbatim>\<open>balances\<close>: the handler calls
  \<^verbatim>\<open>findIndex\<close> on the record, which is not a function, and the reducer raises a
  \<^verbatim>\<open>TypeError\<close> instead of producing a next state.
\<close>

theorem update_tx_raises_on_history_record:
  "rootReducer example_env
     (Some (store_with_history (history_record [history_entry ''1'' False])))
     (update_tx_action ''1'' True) = ([], Inl TypeError)"
proof -
  have "field (update_tx_action ''1'' True) ''type'' = JStr ''update_tx''"
    by (simp add: update_tx_action_def field_def)
  moreover have "onUpdateTx example_env
       (store_with_history (history_record [history_entry ''1'' False]))
       (update_tx_action ''1'' True) = Inl TypeError"
    by (simp add: onUpdateTx_def onUpdateTx_step_def onUpdateTx_newHistory_def js_ops examples)
  ultimately show ?thesis
    by (simp add: dispatch_update_tx pure_def)
qed

text \<open>
  The case \<^verbatim>\<open>types.SET_UNLEASH_CLIENT\<close> raises for every state and payload, as long as no
  earlier case has the same label.
\<close>

lemma set_unleash_client_raises:
  assumes "field action ''type'' = JStr (types c ''SET_UNLEASH_CLIENT'')"
    and "distinct (recognized c)"
  shows "rootReducer c (Some state) action = ([], Inl ReferenceError)"
proof -
  have "distinct (map fst (switch_cases c state action))"
    using assms(2) by (simp only: switch_labels)
  moreover have "(types c ''SET_UNLEASH_CLIENT'', ([], Inl ReferenceError))
      \<in> set (switch_cases c state action)"
    unfolding switch_cases_def by (intro ListMem_iff [THEN iffD1]) (simp add: ListMem_iff)
  ultimately have "map_of (switch_cases c state action) (types c ''SET_UNLEASH_CLIENT'')
      = Some ([], Inl ReferenceError)"
    by (rule map_of_is_SomeI)
  with assms(1) show ?thesis by (simp add: rootReducer_def)
qed

section \<open>Removing token metadata\<close>

text \<open>
  Whatever the balance of the token, the state \<open>removeTokenMetadata\<close> returns has the
  \<^verbatim>\<open>tokensBalance\<close> of the state it was given.
\<close>

lemma removeTokenMetadata_tokensBalance:
  assumes "removeTokenMetadata c state action = Inr s'" and "distinct (map fst state)"
  shows "field s' ''tokensBalance'' = field state ''tokensBalance''"
  using assms
  by (auto simp: removeTokenMetadata_def Let_def andThen_eq_Inr state_with_def set_fields_Nil)

text \<open>
  C7. The token \<^verbatim>\<open>01\<close> has metadata and the stored balance \<^verbatim>\<open>{available: 0, locked: 0}\<close>.
  After \<^verbatim>\<open>remove_token_metadata\<close> its metadata is gone, and its entry of
  \<^verbatim>\<open>tokensBalance\<close> is still there.
\<close>

theorem removeTokenMetadata_keeps_zero_balance:
  "andThen (removeTokenMetadata example_env store_with_zero_balance remove_metadata_action)
     (entity ''tokensBalance'' ''01'') = Inr zero_balance_record
   \<and> andThen (removeTokenMetadata example_env store_with_zero_balance remove_metadata_action)
     (entity ''tokenMetadata'' ''01'') = Inr JUndefined"
  by (simp add: removeTokenMetadata_def js_ops examples AList.delete_eq)

section \<open>The lock wallet promise\<close>

text \<open>
  C9. Processing \<^verbatim>\<open>resolve_lock_wallet_promise\<close> when the slot \<^verbatim>\<open>lockWalletPromise\<close> holds
  a function calls that function with the action's payload and returns the state with
  the slot set to \<^verbatim>\<open>null\<close>; when the slot is \<^verbatim>\<open>null\<close>, it raises a \<^verbatim>\<open>TypeError\<close> and
  returns no state.
\<close>

theorem resolve_lock_wallet_promise:
  assumes "field action ''type'' = JStr ''resolve_lock_wallet_promise''"
    and "distinct (map fst state)"
  shows "(field state ''lockWalletPromise'' = JFun f \<longrightarrow>
            rootReducer c (Some state) action =
              ([Call f (field action ''payload'')],
               Inr (AList.update ''lockWalletPromise'' JNull state)))
         \<and> (field state ''lockWalletPromise'' = JNull \<longrightarrow>
            rootReducer c (Some state) action = ([], Inl TypeError))"
  using assms
  by (simp add: dispatch_resolve onResolveLockWalletPromise_def state_with_def spread_def
      nullish_def set_fields_Nil)

theorem resolve_lock_wallet_promise_witness:
  "rootReducer example_env (Some (store_with_resolver (JFun 7))) resolve_action =
     ([Call 7 (JStr ''123456'')], Inr (store_with_resolver JNull))
   \<and> rootReducer example_env (Some (store_with_resolver JNull)) resolve_action =
     ([], Inl TypeError)"
proof -
  have ty: "field resolve_action ''type'' = JStr ''resolve_lock_wallet_promise''"
    by (simp add: resolve_action_def field_def)
  have d: "distinct (map fst (store_with_resolver v))" for v
    by (simp add: store_with_resolver_def initialState_def)
  have armed: "field (store_with_resolver (JFun 7)) ''lockWalletPromise'' = JFun 7"
    and unarmed: "field (store_with_resolver JNull) ''lockWalletPromise'' = JNull"
    by (simp_all add: store_with_resolver_def initialState_def field_def)
  have payload: "field resolve_action ''payload'' = JStr ''123456''"
    by (simp add: resolve_action_def field_def)
  have cleared: "AList.update ''lockWalletPromise'' JNull (store_with_resolver (JFun 7))
       = store_with_resolver JNull"
    by (simp add: store_with_resolver_def initialState_def)
  from resolve_lock_wallet_promise [OF ty d, of "JFun 7" 7 example_env]
       resolve_lock_wallet_promise [OF ty d, of JNull 0 example_env]
       armed unarmed payload cleared
  show ?thesis by simp
qed

section \<open>The session reset\<close>

text \<open>
  C4. Applied to any state, \<open>onCleanData\<close> returns an object with exactly the fields of
  the initial state, in which \<^verbatim>\<open>isVersionAllowed\<close>, \<^verbatim>\<open>loadingAddresses\<close>, \<^verbatim>\<open>ledgerWasClosed\<close>
  and \<^verbatim>\<open>featureTogglesInitialized\<close> have the value they have in the current state and
  every other field has its initial value.
\<close>

theorem onCleanData_allow_list:
  "\<exists>r. onCleanData c state = Inr r
     \<and> map fst r = map fst (initialState c)
     \<and> (\<forall>k. field r k =
          (if k \<in> {''isVersionAllowed'', ''loadingAddresses'', ''ledgerWasClosed'',
                    ''featureTogglesInitialized''}
           then field state k else field (initialState c) k))"
proof -
  let ?r = "AList.update ''featureTogglesInitialized'' (field state ''featureTogglesInitialized'')
      (AList.update ''ledgerWasClosed'' (field state ''ledgerWasClosed'')
        (AList.update ''loadingAddresses'' (field state ''loadingAddresses'')
          (AList.update ''isVersionAllowed'' (field state ''isVersionAllowed'')
            (initialState c))))"
  have "onCleanData c state = Inr ?r"
    by (simp add: onCleanData_def set_fields_Nil [OF distinct_initialState])
       (simp add: set_fields_def)
  moreover have "map fst ?r = map fst (initialState c)"
    by (simp add: update_keys) (simp add: initialState_def)
  moreover have "\<forall>k. field ?r k =
          (if k \<in> {''isVersionAllowed'', ''loadingAddresses'', ''ledgerWasClosed'',
                    ''featureTogglesInitialized''}
           then field state k else field (initialState c) k)"
    by simp
  ultimately show ?thesis by blast
qed

section \<open>The height of the best chain\<close>






section \<open>The selected token\<close>

text \<open>
  \<open>resetSelectedTokenIfNeeded\<close> reads \<^verbatim>\<open>available\<close> and \<^verbatim>\<open>locked\<close> on the entry
  \<^verbatim>\<open>tokensBalance[selectedToken]\<close> itself. On an entry that has these two numbers as
  its own fields it selects the native token when they add up to zero, and returns the
  state when they do not.
\<close>

lemma resetSelectedTokenIfNeeded_flat:
  assumes sel: "field state ''selectedToken'' = JStr x"
    and tb: "field state ''tokensBalance'' = JObj tb"
    and wf: "distinct (map fst state)"
    and entry: "field tb x = JObj balance" "field balance ''available'' = JNum a"
      "field balance ''locked'' = JNum l"
  shows "resetSelectedTokenIfNeeded c state action =
           (if a + l = 0
            then Inr (AList.update ''selectedToken'' (JStr (NATIVE_TOKEN_UID c)) state)
            else Inr state)"
proof -
  from entry(1) have "x \<in> fst ` set tb"
    by (intro field_present) simp
  with assms show ?thesis
    by (simp add: resetSelectedTokenIfNeeded_def get_index_def nullish_def state_with_def
        set_fields_Nil Let_def)
qed

text \<open>
  A selected token whose id is the name of a member of \<^verbatim>\<open>Object.prototype\<close> and has
  no balance of its own: \<^verbatim>\<open>tokensBalance[selectedToken]\<close> is that member, which is truthy
  and has neither \<^verbatim>\<open>available\<close> nor \<^verbatim>\<open>locked\<close>, and the selection is kept.
\<close>

lemma resetSelectedTokenIfNeeded_inherited:
  assumes "field state ''selectedToken'' = JStr x"
    and "field state ''tokensBalance'' = JObj tb"
    and "x \<notin> fst ` set tb" "inherited x"
  shows "resetSelectedTokenIfNeeded c state action = Inr state"
  using assms
  by (simp add: resetSelectedTokenIfNeeded_def get_index_def nullish_def absent_field_def
      data_fields_def sum_is_zero_def del: inherited_def)

text \<open>
  C8. The token \<^verbatim>\<open>01\<close> is selected and its balance arrives as
  \<^verbatim>\<open>{available: 0, locked: 0}\<close>: \<open>onTokenFetchBalanceSuccess\<close> stores the record
  \<^verbatim>\<open>{status, updatedAt, data: {available: 0, locked: 0}, oldStatus}\<close> of the type
  \<^verbatim>\<open>TokenBalance\<close> for it. On the state so reached, and on any other state whose balance
  of the selected token is such a record, \<^verbatim>\<open>reset_selected_token_if_needed\<close> returns the
  state itself: the token \<^verbatim>\<open>01\<close> with nothing in it stays selected, and the native token
  \<^verbatim>\<open>00\<close> is not. The rule adds \<^verbatim>\<open>available\<close> and \<^verbatim>\<open>locked\<close> of the record, which has
  neither, and not those of its \<^verbatim>\<open>data\<close>.
\<close>

theorem resetSelectedTokenIfNeeded_keeps_zero_balance:
  "onTokenFetchBalanceSuccess example_env store_selecting zero_balance_action
     = Inr (store_selected
              (JObj [(''status'', JStr ''ready''), (''updatedAt'', JNum 1700000000000),
                     (''data'', JObj [(''available'', JNum 0), (''locked'', JNum 0)]),
                     (''oldStatus'', JUndefined)]))
   \<and> rootReducer example_env
       (Some (store_selected
                (JObj [(''status'', JStr ''ready''), (''updatedAt'', JNum 1700000000000),
                       (''data'', JObj [(''available'', JNum 0), (''locked'', JNum 0)]),
                       (''oldStatus'', JUndefined)])))
       reset_action
     = ([], Inr (store_selected
              (JObj [(''status'', JStr ''ready''), (''updatedAt'', JNum 1700000000000),
                     (''data'', JObj [(''available'', JNum 0), (''locked'', JNum 0)]),
                     (''oldStatus'', JUndefined)])))
   \<and> entity_prop ''tokensBalance'' ''01'' ''data'' (store_selected zero_balance_record)
     = Inr (JObj [(''available'', JNum 0), (''locked'', JNum 0)])
   \<and> field (store_selected zero_balance_record) ''selectedToken'' = JStr ''01''
   \<and> NATIVE_TOKEN_UID example_env = ''00''
   \<and> resetSelectedTokenIfNeeded example_env (store_selected zero_balance_record) reset_action
     = Inr (store_selected zero_balance_record)"
  by (simp add: onTokenFetchBalanceSuccess_def resetSelectedTokenIfNeeded_def
      rootReducer_def switch_cases_def pure_def js_ops examples)

section \<open>Updating one transaction of a history record\<close>








section \<open>The previous status of a cached entity\<close>

text \<open>
  \<^verbatim>\<open>get(collection, key, defaultValue)\<close> for a key that is an own key of the collection
  or has no \<^verbatim>\<open>.\<close> and no \<^verbatim>\<open>[\<close>: the entity when there is one, the default value when
  there is none, and the member of \<^verbatim>\<open>Object.prototype\<close> when the key names one and the
  collection has no entry of its own for it.
\<close>

lemma lodash_get_present:
  assumes "plain_path k \<or> k \<in> fst ` set m" and "field m k = JObj e"
  shows "lodash_get (JObj m) (JStr k) d = Inr (JObj e)"
proof -
  from assms(2) have "k \<in> fst ` set m"
    by (intro field_present) simp
  with assms show ?thesis
    by (simp add: lodash_get_def nullish_def del: inherited_def)
qed

lemma lodash_get_absent:
  assumes "plain_path k \<or> k \<in> fst ` set m" and "field m k = JUndefined"
    and "k \<in> fst ` set m \<or> \<not> inherited k"
  shows "lodash_get (JObj m) (JStr k) d = Inr d"
  using assms by (auto simp: lodash_get_def nullish_def simp del: inherited_def)

lemma lodash_get_member:
  assumes "plain_path k" and "k \<notin> fst ` set m" and "inherited k"
  shows "lodash_get (JObj m) (JStr k) d = Inr (JInherited k)"
  using assms by (simp add: lodash_get_def nullish_def del: inherited_def)

lemmas recording_handlers = onTokenFetchBalanceRequested_def onTokenFetchBalanceSuccess_def
  onTokenFetchBalanceFailed_def onTokenFetchHistoryRequested_def
  onTokenFetchHistorySuccess_def onTokenFetchHistoryFailed_def onProposalFetchRequested_def
  onProposalTokenFetchRequested_def

lemmas reading_back = Let_def state_with_def object_literal_def entity_prop_def entity_def
  dom_update nullish_def spread_def absent_field_def data_fields_def

text \<open>
  C3, as the code has it. For the requested, success and failed transitions of a token
  balance and of a token history, for the requested transition of a proposal, and for
  the requested transition of a token of the proposal cache that has an entity: when
  the key is a string that is an own key of the collection or has no \<^verbatim>\<open>.\<close> and no
  \<^verbatim>\<open>[\<close>, the collection is an object and the entity is absent or an object, the handler
  returns a state in which the entity's \<^verbatim>\<open>status\<close> is the status of the transition
  (\<^verbatim>\<open>LOADING\<close>, \<^verbatim>\<open>READY\<close> or \<^verbatim>\<open>FAILED\<close>) and its \<^verbatim>\<open>oldStatus\<close> is the \<^verbatim>\<open>status\<close> the entity
  held before the transition, \<^verbatim>\<open>undefined\<close> when it was absent.
\<close>

theorem oldStatus_recorded:
  assumes id: "field action (id_field t) = JStr k" "plain_path k \<or> k \<in> fst ` set m"
    and coll: "field state (collection t) = JObj m"
    and old: "(field m k = JUndefined \<and> t \<noteq> ProposalTokenRequested) \<or> field m k = JObj e"
  shows "\<exists>s'. handler_of c t state action = Inr s'
          \<and> entity_prop (collection t) k ''status'' s' = Inr (new_status c t)
          \<and> entity_prop (collection t) k ''oldStatus'' s' = Inr (status_of (field m k))"
proof -
  from id(2) old consider
      (present) "field m k = JObj e"
    | (absent) "field m k = JUndefined" "t \<noteq> ProposalTokenRequested"
        "k \<in> fst ` set m \<or> \<not> inherited k"
    | (member) "field m k = JUndefined" "t \<noteq> ProposalTokenRequested"
        "plain_path k" "k \<notin> fst ` set m" "inherited k"
    by blast
  then show ?thesis
  proof cases
    case present
    note get = lodash_get_present [OF id(2) present]
    from id(1) coll present show ?thesis
      by (cases t) (simp_all add: recording_handlers reading_back get field_Nil field_Cons)
  next
    case absent
    note get = lodash_get_absent [OF id(2) absent(1) absent(3)]
    from id(1) coll absent(1, 2) show ?thesis
      by (cases t) (simp_all add: recording_handlers reading_back get field_Nil field_Cons)
  next
    case member
    note get = lodash_get_member [OF member(3, 4, 5)]
    from id(1) coll member(1, 2) show ?thesis
      by (cases t) (simp_all add: recording_handlers reading_back get field_Nil field_Cons)
  qed
qed

text \<open>
  The example of the claim: from an absent balance, the request stores
  \<^verbatim>\<open>{status: LOADING, oldStatus: undefined}\<close>, and the success that follows stores an
  entity with \<^verbatim>\<open>status: READY\<close> and \<^verbatim>\<open>oldStatus: LOADING\<close>. And a token of the proposal
  cache that is \<^verbatim>\<open>ready\<close> and is requested again is \<^verbatim>\<open>loading\<close> with the old status
  \<^verbatim>\<open>ready\<close>.
\<close>

theorem oldStatus_recorded_witness:
  "onTokenFetchBalanceRequested example_env (initialState example_env)
        (keyed_action ''TOKEN_FETCH_BALANCE_REQUESTED'' ''tokenId'' ''00'')
      = Inr (store_with_entity ''tokensBalance'' ''00''
               (JObj [(''status'', JStr ''loading''), (''oldStatus'', JUndefined)]))
   \<and> andThen (onTokenFetchBalanceRequested example_env (initialState example_env)
              (keyed_action ''TOKEN_FETCH_BALANCE_REQUESTED'' ''tokenId'' ''00''))
       (entity_prop ''tokensBalance'' ''00'' ''status'') = Inr (JStr ''loading'')
   \<and> andThen (onTokenFetchBalanceRequested example_env (initialState example_env)
              (keyed_action ''TOKEN_FETCH_BALANCE_REQUESTED'' ''tokenId'' ''00''))
       (entity_prop ''tokensBalance'' ''00'' ''oldStatus'') = Inr JUndefined
   \<and> onTokenFetchBalanceSuccess example_env
        (store_with_entity ''tokensBalance'' ''00''
           (JObj [(''status'', JStr ''loading''), (''oldStatus'', JUndefined)]))
        (keyed_action ''TOKEN_FETCH_BALANCE_SUCCESS'' ''tokenId'' ''00'')
      = Inr (store_with_entity ''tokensBalance'' ''00''
               (JObj [(''status'', JStr ''ready''), (''updatedAt'', JNum 1700000000000),
                      (''data'', JObj [(''available'', JNum 640), (''locked'', JNum 0)]),
                      (''oldStatus'', JStr ''loading'')]))
   \<and> andThen (onTokenFetchBalanceSuccess example_env
                (store_with_entity ''tokensBalance'' ''00''
                   (JObj [(''status'', JStr ''loading''), (''oldStatus'', JUndefined)]))
                (keyed_action ''TOKEN_FETCH_BALANCE_SUCCESS'' ''tokenId'' ''00''))
       (entity_prop ''tokensBalance'' ''00'' ''status'') = Inr (JStr ''ready'')
   \<and> andThen (onTokenFetchBalanceSuccess example_env
                (store_with_entity ''tokensBalance'' ''00''
                   (JObj [(''status'', JStr ''loading''), (''oldStatus'', JUndefined)]))
                (keyed_action ''TOKEN_FETCH_BALANCE_SUCCESS'' ''tokenId'' ''00''))
       (entity_prop ''tokensBalance'' ''00'' ''oldStatus'') = Inr (JStr ''loading'')
   \<and> andThen (onProposalTokenFetchRequested example_env
                (store_with_entity ''tokensCache'' ''01''
                   (JObj [(''tokenUid'', JStr ''01''), (''symbol'', JStr ''TK''),
                          (''name'', JStr ''Token''), (''status'', JStr ''ready'')]))
                (keyed_action ''PROPOSAL_TOKEN_FETCH_REQUESTED'' ''tokenUid'' ''01''))
       (entity_prop ''tokensCache'' ''01'' ''status'') = Inr (JStr ''loading'')
   \<and> andThen (onProposalTokenFetchRequested example_env
                (store_with_entity ''tokensCache'' ''01''
                   (JObj [(''tokenUid'', JStr ''01''), (''symbol'', JStr ''TK''),
                          (''name'', JStr ''Token''), (''status'', JStr ''ready'')]))
                (keyed_action ''PROPOSAL_TOKEN_FETCH_REQUESTED'' ''tokenUid'' ''01''))
       (entity_prop ''tokensCache'' ''01'' ''oldStatus'') = Inr (JStr ''ready'')"
proof -
  let ?loading = "[(''status'', JStr ''loading''), (''oldStatus'', JUndefined)]"
  let ?cached = "[(''tokenUid'', JStr ''01''), (''symbol'', JStr ''TK''),
                  (''name'', JStr ''Token''), (''status'', JStr ''ready'')]"
  let ?request = "keyed_action ''TOKEN_FETCH_BALANCE_REQUESTED'' ''tokenId'' ''00''"
  let ?success = "keyed_action ''TOKEN_FETCH_BALANCE_SUCCESS'' ''tokenId'' ''00''"
  let ?again = "keyed_action ''PROPOSAL_TOKEN_FETCH_REQUESTED'' ''tokenUid'' ''01''"
  have id: "field ?request (id_field BalanceRequested) = JStr ''00''"
    "field ?success (id_field BalanceSuccess) = JStr ''00''"
    "field ?again (id_field ProposalTokenRequested) = JStr ''01''"
    by (simp_all add: keyed_action_def field_Cons)
  have plain: "plain_path ''00'' \<or> ''00'' \<in> fst ` set m"
    "plain_path ''01'' \<or> ''01'' \<in> fst ` set m" for m :: obj
    by (simp_all add: plain_path_def)
  have coll0: "field (initialState example_env) (collection BalanceRequested) = JObj []"
    by (simp add: initialState_def field_Cons)
  have coll1: "field (store_with_entity ''tokensBalance'' ''00'' (JObj ?loading))
      (collection BalanceSuccess) = JObj [(''00'', JObj ?loading)]"
    by (simp add: store_with_entity_def)
  have coll2: "field (store_with_entity ''tokensCache'' ''01'' (JObj ?cached))
      (collection ProposalTokenRequested) = JObj [(''01'', JObj ?cached)]"
    by (simp add: store_with_entity_def)
  have absent: "(field [] ''00'' = JUndefined \<and> BalanceRequested \<noteq> ProposalTokenRequested)
      \<or> field [] ''00'' = JObj []"
    by (simp add: field_Nil)
  have present: "(field [(''00'', JObj ?loading)] ''00'' = JUndefined
        \<and> BalanceSuccess \<noteq> ProposalTokenRequested)
      \<or> field [(''00'', JObj ?loading)] ''00'' = JObj ?loading"
    by (simp add: field_Cons)
  have cached: "(field [(''01'', JObj ?cached)] ''01'' = JUndefined
        \<and> ProposalTokenRequested \<noteq> ProposalTokenRequested)
      \<or> field [(''01'', JObj ?cached)] ''01'' = JObj ?cached"
    by (simp add: field_Cons)
  have statuses: "new_status example_env BalanceRequested = JStr ''loading''"
    "new_status example_env BalanceSuccess = JStr ''ready''"
    "new_status example_env ProposalTokenRequested = JStr ''loading''"
    by (simp_all add: example_env_def field_Cons)
  from oldStatus_recorded [OF id(1) plain(1) coll0 absent, where c = example_env] statuses
  have one: "andThen (onTokenFetchBalanceRequested example_env (initialState example_env)
              ?request)
     (entity_prop ''tokensBalance'' ''00'' ''status'') = Inr (JStr ''loading'')"
    "andThen (onTokenFetchBalanceRequested example_env (initialState example_env)
              ?request)
     (entity_prop ''tokensBalance'' ''00'' ''oldStatus'') = Inr JUndefined"
    by (auto simp: field_Nil)
  from oldStatus_recorded [OF id(2) plain(1) coll1 present, where c = example_env] statuses
  have two: "andThen (onTokenFetchBalanceSuccess example_env
                (store_with_entity ''tokensBalance'' ''00'' (JObj ?loading)) ?success)
       (entity_prop ''tokensBalance'' ''00'' ''status'') = Inr (JStr ''ready'')"
    "andThen (onTokenFetchBalanceSuccess example_env
                (store_with_entity ''tokensBalance'' ''00'' (JObj ?loading)) ?success)
       (entity_prop ''tokensBalance'' ''00'' ''oldStatus'') = Inr (JStr ''loading'')"
    by (auto simp: field_Cons)
  from oldStatus_recorded [OF id(3) plain(2) coll2 cached, where c = example_env] statuses
  have three: "andThen (onProposalTokenFetchRequested example_env
                (store_with_entity ''tokensCache'' ''01'' (JObj ?cached)) ?again)
       (entity_prop ''tokensCache'' ''01'' ''status'') = Inr (JStr ''loading'')"
    "andThen (onProposalTokenFetchRequested example_env
                (store_with_entity ''tokensCache'' ''01'' (JObj ?cached)) ?again)
       (entity_prop ''tokensCache'' ''01'' ''oldStatus'') = Inr (JStr ''ready'')"
    by (auto simp: field_Cons)
  have stored: "onTokenFetchBalanceRequested example_env (initialState example_env) ?request
      = Inr (store_with_entity ''tokensBalance'' ''00'' (JObj ?loading))"
    "onTokenFetchBalanceSuccess example_env
        (store_with_entity ''tokensBalance'' ''00'' (JObj ?loading)) ?success
      = Inr (store_with_entity ''tokensBalance'' ''00''
               (JObj [(''status'', JStr ''ready''), (''updatedAt'', JNum 1700000000000),
                      (''data'', JObj [(''available'', JNum 640), (''locked'', JNum 0)]),
                      (''oldStatus'', JStr ''loading'')]))"
    by (simp_all add: onTokenFetchBalanceRequested_def onTokenFetchBalanceSuccess_def
        js_ops examples)
  from one two three stored show ?thesis by blast
qed

text \<open>
  C3 as stated fails on every other status-changing transition. In each case the
  entity holds a status before the transition, and the entity stored by the transition
  does not record it. A proposal that is \<^verbatim>\<open>loading\<close> with the old status \<^verbatim>\<open>undefined\<close>
  and then succeeds keeps the old status \<^verbatim>\<open>undefined\<close>: \<open>onProposalFetchSuccess\<close>
  spreads the old entity and writes no \<^verbatim>\<open>oldStatus\<close>; when it fails, the entity that
  \<open>onProposalFetchFailed\<close> builds has no \<^verbatim>\<open>oldStatus\<close>. Invalidating a balance or a
  history that is \<^verbatim>\<open>ready\<close> stores \<^verbatim>\<open>{status: INVALIDATED}\<close> alone. The success and the
  failure of a token of the proposal cache that is \<^verbatim>\<open>loading\<close> store an entity without
  \<^verbatim>\<open>oldStatus\<close>. Requesting a token of the proposal cache that is absent records the
  old status \<^verbatim>\<open>loading\<close>, the status of the default entity, and not \<^verbatim>\<open>undefined\<close>.
\<close>

theorem oldStatus_not_recorded:
  "entity_prop ''proposals'' ''p1'' ''status''
     (store_with_entity ''proposals'' ''p1''
        (JObj [(''id'', JStr ''p1''), (''status'', JStr ''loading''), (''oldStatus'', JUndefined)]))
     = Inr (JStr ''loading'')
   \<and> andThen (onProposalFetchSuccess example_env
                (store_with_entity ''proposals'' ''p1''
                   (JObj [(''id'', JStr ''p1''), (''status'', JStr ''loading''),
                          (''oldStatus'', JUndefined)]))
                (keyed_action ''PROPOSAL_FETCH_SUCCESS'' ''proposalId'' ''p1''))
       (entity_prop ''proposals'' ''p1'' ''oldStatus'') = Inr JUndefined
   \<and> andThen (onProposalFetchFailed example_env
                (store_with_entity ''proposals'' ''p1''
                   (JObj [(''id'', JStr ''p1''), (''status'', JStr ''loading''),
                          (''oldStatus'', JUndefined)]))
                (keyed_action ''PROPOSAL_FETCH_FAILED'' ''proposalId'' ''p1''))
       (entity_prop ''proposals'' ''p1'' ''oldStatus'') = Inr JUndefined
   \<and> entity_prop ''tokensBalance'' ''01'' ''status'' store_with_zero_balance
     = Inr (JStr ''ready'')
   \<and> andThen (onTokenInvalidateBalance example_env store_with_zero_balance
                (keyed_action ''TOKEN_INVALIDATE_BALANCE'' ''tokenId'' ''01''))
       (entity ''tokensBalance'' ''01'') = Inr (JObj [(''status'', JStr ''invalidated'')])
   \<and> entity_prop ''tokensHistory'' ''00'' ''status''
       (store_with_history (history_record [history_entry ''1'' False]))
     = Inr (JStr ''ready'')
   \<and> andThen (onTokenInvalidateHistory example_env
                (store_with_history (history_record [history_entry ''1'' False]))
                (keyed_action ''TOKEN_INVALIDATE_HISTORY'' ''tokenId'' ''00''))
       (entity ''tokensHistory'' ''00'') = Inr (JObj [(''status'', JStr ''invalidated'')])
   \<and> entity_prop ''tokensCache'' ''01'' ''status''
       (store_with_entity ''tokensCache'' ''01''
          (JObj [(''tokenUid'', JStr ''01''), (''symbol'', JStr []), (''name'', JStr []),
                 (''status'', JStr ''loading''), (''oldStatus'', JUndefined)]))
     = Inr (JStr ''loading'')
   \<and> andThen (onProposalTokenFetchSuccess example_env
                (store_with_entity ''tokensCache'' ''01''
                   (JObj [(''tokenUid'', JStr ''01''), (''symbol'', JStr []), (''name'', JStr []),
                          (''status'', JStr ''loading''), (''oldStatus'', JUndefined)]))
                (keyed_action ''PROPOSAL_TOKEN_FETCH_SUCCESS'' ''tokenUid'' ''01''))
       (entity_prop ''tokensCache'' ''01'' ''oldStatus'') = Inr JUndefined
   \<and> andThen (onProposalTokenFetchFailed example_env
                (store_with_entity ''tokensCache'' ''01''
                   (JObj [(''tokenUid'', JStr ''01''), (''symbol'', JStr []), (''name'', JStr []),
                          (''status'', JStr ''loading''), (''oldStatus'', JUndefined)]))
                (keyed_action ''PROPOSAL_TOKEN_FETCH_FAILED'' ''tokenUid'' ''01''))
       (entity_prop ''tokensCache'' ''01'' ''oldStatus'') = Inr JUndefined
   \<and> entity ''tokensCache'' ''01'' (initialState example_env) = Inr JUndefined
   \<and> andThen (onProposalTokenFetchRequested example_env (initialState example_env)
                (keyed_action ''PROPOSAL_TOKEN_FETCH_REQUESTED'' ''tokenUid'' ''01''))
       (entity_prop ''tokensCache'' ''01'' ''oldStatus'') = Inr (JStr ''loading'')"
  by (simp add: onProposalFetchSuccess_def onProposalFetchFailed_def
      onTokenInvalidateBalance_def onTokenInvalidateHistory_def
      onProposalTokenFetchSuccess_def onProposalTokenFetchFailed_def
      onProposalTokenFetchRequested_def js_ops examples)

end
